theory Spec2Isabelle
  imports Complex_Main "HOL-Library.Sublist" "HOL-Library.AList" "HOL-Library.Multiset"
begin

section \<open>Text\<close>

text \<open>
  A Python \<open>str\<close> is a sequence of Unicode code points. The pipeline slices text by
  code points (\<open>description[:1000]\<close>) and looks for the euro sign U+20AC, so a string is
  modelled as the list of its code points. \<open>str\<close> turns an ASCII literal into that form.
  Text is assumed encodable (no lone surrogates), as \<open>raw.encode()\<close> needs.
\<close>

type_synonym pystr = "nat list"

definition str :: "string \<Rightarrow> pystr" where
  "str s = map of_char s"

text \<open>\<open>sub in s\<close> on two strings: \<open>sub\<close> occurs in \<open>s\<close> as a contiguous run.\<close>

fun is_in :: "pystr \<Rightarrow> pystr \<Rightarrow> bool" where
  "is_in sub [] = (sub = [])"
| "is_in sub (c # cs) = (prefix sub (c # cs) \<or> is_in sub cs)"

section \<open>The interpreter's library\<close>

text \<open>
  The functions of the Python runtime that the program calls and that are not part of the
  repository: \<open>str.lower\<close>, the character classes \<open>\d\<close> and \<open>\s\<close> of \<open>re\<close> with the
  decimal value \<open>int\<close> gives a digit, \<open>hashlib.md5(s.encode()).hexdigest()\<close>, and
  \<open>datetime.isoformat\<close> and \<open>datetime.fromisoformat\<close>. Every operation of the model takes
  them as the parameter \<open>L\<close>, so a theorem stated for every \<open>L\<close> holds for the real tables.
\<close>

datatype exn = KeyError | TypeError | AttributeError | ValueError | OverflowError
  | UnicodeDecodeError

text \<open>
  A \<open>datetime\<close> value: naive (no time zone, as \<open>datetime.now()\<close> returns it) or aware.
  The number is the count of microseconds since 0001-01-01T00:00:00.
\<close>

datatype datetime = Naive int | Aware int

record pylib =
  py_lower :: "pystr \<Rightarrow> pystr"
  py_isdigit :: "nat \<Rightarrow> bool"
  py_digit :: "nat \<Rightarrow> nat"
  py_isspace :: "nat \<Rightarrow> bool"
  py_md5 :: "pystr \<Rightarrow> pystr"
  py_isoformat :: "int \<Rightarrow> pystr"
  py_fromisoformat :: "pystr \<Rightarrow> exn + datetime"

section \<open>Data model\<close>

text \<open>
  One entry of \<open>match_reasons\<close>. The source appends formatted text; the model keeps the
  rule that fired and the values it interpolates, in the same order.
\<close>

datatype reason =
    TitleMatch pystr
  | SeniorityMatch pystr
  | Keywords nat "pystr list"
  | Location pystr
  | LocationExcluded pystr
  | TargetCompany pystr
  | Salary int
  | LowSalary int
  | Negative pystr

text \<open>The dataclass \<open>JobPosting\<close>, field by field.\<close>

record JobPosting =
  title :: pystr
  company :: pystr
  location :: pystr
  url :: pystr
  source :: pystr
  description :: pystr
  salary_info :: pystr
  date_posted :: pystr
  relevance_score :: int
  match_reasons :: "reason list"
  job_id :: pystr

text \<open>
  \<open>raw = f"{self.title}|{self.company}|{self.url}"\<close>, the text that is hashed.
\<close>

definition identity_raw :: "pystr \<Rightarrow> pystr \<Rightarrow> pystr \<Rightarrow> pystr" where
  "identity_raw t c u = t @ str ''|'' @ c @ str ''|'' @ u"

text \<open>
  \<open>JobPosting.__post_init__\<close>: a posting built with a non-empty \<open>job_id\<close> keeps it, any
  other gets the digest of \<open>raw\<close>.
\<close>

definition post_init :: "'x pylib_scheme \<Rightarrow> JobPosting \<Rightarrow> JobPosting" where
  "post_init L p =
     (if job_id p = []
      then p\<lparr>job_id := py_md5 L (identity_raw (title p) (company p) (url p))\<rparr>
      else p)"

text \<open>
  The constructor call of the adapters: the five required fields, every other field at
  its default, then \<open>__post_init__\<close>.
\<close>

definition new_posting ::
  "'x pylib_scheme \<Rightarrow> pystr \<Rightarrow> pystr \<Rightarrow> pystr \<Rightarrow> pystr \<Rightarrow> pystr \<Rightarrow> JobPosting" where
  "new_posting L t c l u s =
     post_init L \<lparr>title = t, company = c, location = l, url = u, source = s,
       description = [], salary_info = [], date_posted = [], relevance_score = 0,
       match_reasons = [], job_id = []\<rparr>"

text \<open>The identity of a (title, company, url) triple: the \<open>job_id\<close> the constructor computes.\<close>

definition identity :: "'x pylib_scheme \<Rightarrow> pystr \<Rightarrow> pystr \<Rightarrow> pystr \<Rightarrow> pystr" where
  "identity L t c u = job_id (new_posting L t c [] u [])"

section \<open>Deduplication\<close>

text \<open>\<open>key = job.url if job.url else f"{job.title}|{job.company}"\<close>\<close>

definition dedup_key :: "JobPosting \<Rightarrow> pystr" where
  "dedup_key job = (if url job \<noteq> [] then url job else title job @ str ''|'' @ company job)"

text \<open>
  The loop of \<open>run\<close> over \<open>all_jobs\<close>, with its two accumulators \<open>seen_urls\<close> and
  \<open>unique_jobs\<close>.
\<close>

fun dedup_loop :: "pystr set \<Rightarrow> JobPosting list \<Rightarrow> JobPosting list \<Rightarrow> JobPosting list" where
  "dedup_loop seen_urls unique_jobs [] = unique_jobs"
| "dedup_loop seen_urls unique_jobs (job # all_jobs) =
     (let key = dedup_key job in
      if key \<notin> seen_urls
      then dedup_loop (insert key seen_urls) (unique_jobs @ [job]) all_jobs
      else dedup_loop seen_urls unique_jobs all_jobs)"

definition deduplicate :: "JobPosting list \<Rightarrow> JobPosting list" where
  "deduplicate all_jobs = dedup_loop {} [] all_jobs"

section \<open>Configuration\<close>

text \<open>
  The profile document behind \<open>Config\<close>, with the keys the properties of \<open>Config\<close> read.
  \<open>target_companies\<close> maps a category to its companies; \<open>output.max_results_per_report\<close>
  may be absent (\<open>None\<close>).
\<close>

record Company =
  name :: pystr
  careers_url :: pystr

record Config =
  profile_target_titles :: "pystr list"
  profile_positive_keywords :: "pystr list"
  profile_negative_keywords :: "pystr list"
  profile_min_relevance_score :: int
  locations_include :: "pystr list"
  locations_exclude :: "pystr list"
  salary_seniority_indicators :: "pystr list"
  target_companies_by_category :: "(pystr \<times> Company list) list"
  output_max_results_per_report :: "int option"

definition target_titles :: "'x pylib_scheme \<Rightarrow> Config \<Rightarrow> pystr list" where
  "target_titles L cfg = map (py_lower L) (profile_target_titles cfg)"

definition positive_keywords :: "'x pylib_scheme \<Rightarrow> Config \<Rightarrow> pystr list" where
  "positive_keywords L cfg = map (py_lower L) (profile_positive_keywords cfg)"

definition negative_keywords :: "'x pylib_scheme \<Rightarrow> Config \<Rightarrow> pystr list" where
  "negative_keywords L cfg = map (py_lower L) (profile_negative_keywords cfg)"

definition min_score :: "Config \<Rightarrow> int" where
  "min_score cfg = profile_min_relevance_score cfg"

definition location_include :: "'x pylib_scheme \<Rightarrow> Config \<Rightarrow> pystr list" where
  "location_include L cfg = map (py_lower L) (locations_include cfg)"

definition location_exclude :: "'x pylib_scheme \<Rightarrow> Config \<Rightarrow> pystr list" where
  "location_exclude L cfg = map (py_lower L) (locations_exclude cfg)"

definition seniority_indicators :: "'x pylib_scheme \<Rightarrow> Config \<Rightarrow> pystr list" where
  "seniority_indicators L cfg = map (py_lower L) (salary_seniority_indicators cfg)"

definition target_companies :: "Config \<Rightarrow> Company list" where
  "target_companies cfg = concat (map snd (target_companies_by_category cfg))"

section \<open>Relevance scorer\<close>

subsection \<open>The salary pattern\<close>

text \<open>
  \<open>re.search(r'(\d{2,3})[.,]?(\d{3})?\s*(?:EURO SIGN|eur|euro)', salary_text)\<close>, where the
  first alternative is the euro sign U+20AC (code point 8364). The matcher tries the
  greedy choices in the order of a backtracking engine: three digits before two, the
  separator before none, the three-digit group before none. The result holds the two
  groups; group 2 is \<open>None\<close> when it took no part in the match.
\<close>

definition take_digits :: "'x pylib_scheme \<Rightarrow> nat \<Rightarrow> pystr \<Rightarrow> (pystr \<times> pystr) option" where
  "take_digits L n s =
     (if n \<le> length s \<and> list_all (py_isdigit L) (take n s) then Some (take n s, drop n s)
      else None)"

definition after_separator :: "pystr \<Rightarrow> pystr option" where
  "after_separator s =
     (case s of [] \<Rightarrow> None | c # cs \<Rightarrow> if c = 46 \<or> c = 44 then Some cs else None)"

definition at_currency :: "pystr \<Rightarrow> bool" where
  "at_currency s = (prefix [8364] s \<or> prefix (str ''eur'') s \<or> prefix (str ''euro'') s)"

fun currency_after_space :: "'x pylib_scheme \<Rightarrow> pystr \<Rightarrow> bool" where
  "currency_after_space L [] = False"
| "currency_after_space L (c # cs) =
     (at_currency (c # cs) \<or> (py_isspace L c \<and> currency_after_space L cs))"

definition salary_attempt ::
  "'x pylib_scheme \<Rightarrow> pystr \<Rightarrow> nat \<times> bool \<times> bool \<Rightarrow> (pystr \<times> pystr option) option" where
  "salary_attempt L s choice =
     (case choice of (n1, sep, grp) \<Rightarrow>
      (case take_digits L n1 s of
         None \<Rightarrow> None
       | Some (g1, r1) \<Rightarrow>
          (case (if sep then after_separator r1 else Some r1) of
             None \<Rightarrow> None
           | Some r2 \<Rightarrow>
              (case (if grp then map_option (\<lambda>(g2, r3). (Some g2, r3)) (take_digits L 3 r2)
                     else Some (None, r2)) of
                 None \<Rightarrow> None
               | Some (g2, r3) \<Rightarrow>
                   if currency_after_space L r3 then Some (g1, g2) else None))))"

definition salary_choices :: "(nat \<times> bool \<times> bool) list" where
  "salary_choices =
     [(3, True, True), (3, True, False), (3, False, True), (3, False, False),
      (2, True, True), (2, True, False), (2, False, True), (2, False, False)]"

fun first_some :: "'a option list \<Rightarrow> 'a option" where
  "first_some [] = None"
| "first_some (None # xs) = first_some xs"
| "first_some (Some x # xs) = Some x"

definition salary_match_at :: "'x pylib_scheme \<Rightarrow> pystr \<Rightarrow> (pystr \<times> pystr option) option" where
  "salary_match_at L s = first_some (map (salary_attempt L s) salary_choices)"

fun salary_search :: "'x pylib_scheme \<Rightarrow> pystr \<Rightarrow> (pystr \<times> pystr option) option" where
  "salary_search L [] = salary_match_at L []"
| "salary_search L (c # cs) =
     (case salary_match_at L (c # cs) of
        Some m \<Rightarrow> Some m
      | None \<Rightarrow> salary_search L cs)"

text \<open>
  \<open>int(s)\<close> on a string of decimal digits; \<open>None\<close> is its \<open>ValueError\<close>. The scorer calls
  it on matched groups only.
\<close>

definition digits_value :: "'x pylib_scheme \<Rightarrow> pystr \<Rightarrow> int" where
  "digits_value L ds = int (foldl (\<lambda>a c. 10 * a + py_digit L c) 0 ds)"

definition int_of_digits :: "'x pylib_scheme \<Rightarrow> pystr \<Rightarrow> int option" where
  "int_of_digits L ds =
     (if ds \<noteq> [] \<and> list_all (py_isdigit L) ds then Some (digits_value L ds) else None)"

subsection \<open>The seven rules\<close>

text \<open>
  \<open>RelevanceScorer.score\<close> updates the two locals \<open>score\<close> and \<open>reasons\<close> rule by rule;
  each rule of the model takes the pair and returns it updated.
\<close>

type_synonym tally = "int \<times> reason list"

definition title_lower :: "'x pylib_scheme \<Rightarrow> JobPosting \<Rightarrow> pystr" where
  "title_lower L job = py_lower L (title job)"

definition full_text :: "'x pylib_scheme \<Rightarrow> JobPosting \<Rightarrow> pystr" where
  "full_text L job =
     py_lower L (title job @ str '' '' @ company job @ str '' '' @ description job
       @ str '' '' @ location job)"

definition loc_lower :: "'x pylib_scheme \<Rightarrow> JobPosting \<Rightarrow> pystr" where
  "loc_lower L job = py_lower L (location job @ str '' '' @ take 500 (description job))"

definition salary_text :: "'x pylib_scheme \<Rightarrow> JobPosting \<Rightarrow> pystr" where
  "salary_text L job = py_lower L (salary_info job @ str '' '' @ take 1000 (description job))"

definition score_title :: "'x pylib_scheme \<Rightarrow> Config \<Rightarrow> JobPosting \<Rightarrow> tally \<Rightarrow> tally" where
  "score_title L cfg job st =
     (case st of (score, reasons) \<Rightarrow>
      (case find (\<lambda>target. is_in target (title_lower L job)) (target_titles L cfg) of
         Some target \<Rightarrow> (score + 35, reasons @ [TitleMatch target])
       | None \<Rightarrow>
          (case find (\<lambda>indicator. is_in indicator (title_lower L job))
                  (seniority_indicators L cfg) of
             Some indicator \<Rightarrow> (score + 15, reasons @ [SeniorityMatch indicator])
           | None \<Rightarrow> (score, reasons))))"

definition score_keywords :: "'x pylib_scheme \<Rightarrow> Config \<Rightarrow> JobPosting \<Rightarrow> tally \<Rightarrow> tally" where
  "score_keywords L cfg job st =
     (case st of (score, reasons) \<Rightarrow>
      (let kw_hits = filter (\<lambda>kw. is_in kw (full_text L job)) (positive_keywords L cfg) in
       if kw_hits \<noteq> []
       then (score + min 30 (int (length kw_hits) * 5),
             reasons @ [Keywords (length kw_hits) (take 5 kw_hits)])
       else (score, reasons)))"

definition score_location :: "'x pylib_scheme \<Rightarrow> Config \<Rightarrow> JobPosting \<Rightarrow> tally \<Rightarrow> tally" where
  "score_location L cfg job st =
     (case st of (score, reasons) \<Rightarrow>
      (case find (\<lambda>loc. is_in loc (loc_lower L job)) (location_include L cfg) of
         Some loc \<Rightarrow> (score + 20, reasons @ [Location loc])
       | None \<Rightarrow> (score, reasons)))"

definition score_exclusions :: "'x pylib_scheme \<Rightarrow> Config \<Rightarrow> JobPosting \<Rightarrow> tally \<Rightarrow> tally" where
  "score_exclusions L cfg job st =
     fold (\<lambda>exc (score, reasons).
             if is_in exc (loc_lower L job)
             then (score - 50, reasons @ [LocationExcluded exc])
             else (score, reasons))
       (location_exclude L cfg) st"

definition company_matches :: "'x pylib_scheme \<Rightarrow> JobPosting \<Rightarrow> Company \<Rightarrow> bool" where
  "company_matches L job tc =
     (is_in (py_lower L (name tc)) (py_lower L (company job))
      \<or> is_in (py_lower L (company job)) (py_lower L (name tc)))"

definition score_company :: "'x pylib_scheme \<Rightarrow> Config \<Rightarrow> JobPosting \<Rightarrow> tally \<Rightarrow> tally" where
  "score_company L cfg job st =
     (case st of (score, reasons) \<Rightarrow>
      (case find (company_matches L job) (target_companies cfg) of
         Some tc \<Rightarrow> (score + 15, reasons @ [TargetCompany (name tc)])
       | None \<Rightarrow> (score, reasons)))"

text \<open>
  The salary rule. \<open>amount\<close> is first \<open>int(group 1)\<close> times 1000 or 1, then, when group 2
  matched, \<open>int(group 1 + group 2)\<close>; a \<open>ValueError\<close> of \<open>int\<close> leaves the pair as it was.
\<close>

definition salary_amount :: "'x pylib_scheme \<Rightarrow> pystr \<times> pystr option \<Rightarrow> int option" where
  "salary_amount L m =
     (case m of (g1, g2) \<Rightarrow>
      (case int_of_digits L g1 of
         None \<Rightarrow> None
       | Some a \<Rightarrow>
          (case g2 of
             None \<Rightarrow> Some (a * 1000)
           | Some g \<Rightarrow> int_of_digits L (g1 @ g))))"

definition score_salary :: "'x pylib_scheme \<Rightarrow> JobPosting \<Rightarrow> tally \<Rightarrow> tally" where
  "score_salary L job st =
     (case st of (score, reasons) \<Rightarrow>
      (case salary_search L (salary_text L job) of
         None \<Rightarrow> (score, reasons)
       | Some m \<Rightarrow>
          (case salary_amount L m of
             None \<Rightarrow> (score, reasons)
           | Some amount \<Rightarrow>
               if amount \<ge> 100000 then (score + 10, reasons @ [Salary amount])
               else if amount < 60000 then (score - 20, reasons @ [LowSalary amount])
               else (score, reasons))))"

definition score_negative :: "'x pylib_scheme \<Rightarrow> Config \<Rightarrow> JobPosting \<Rightarrow> tally \<Rightarrow> tally" where
  "score_negative L cfg job st =
     fold (\<lambda>neg (score, reasons).
             if is_in neg (title_lower L job)
             then (score - 40, reasons @ [Negative neg])
             else (score, reasons))
       (negative_keywords L cfg) st"

text \<open>The locals \<open>score\<close> and \<open>reasons\<close> after the last rule.\<close>

definition raw_tally :: "'x pylib_scheme \<Rightarrow> Config \<Rightarrow> JobPosting \<Rightarrow> tally" where
  "raw_tally L cfg job =
     score_negative L cfg job
       (score_salary L job
         (score_company L cfg job
           (score_exclusions L cfg job
             (score_location L cfg job
               (score_keywords L cfg job
                 (score_title L cfg job (0, [])))))))"

definition score :: "'x pylib_scheme \<Rightarrow> Config \<Rightarrow> JobPosting \<Rightarrow> JobPosting" where
  "score L cfg job =
     (case raw_tally L cfg job of (score, reasons) \<Rightarrow>
        job\<lparr>relevance_score := max 0 (min 100 score), match_reasons := reasons\<rparr>)"

section \<open>Seen-jobs database\<close>

text \<open>
  \<open>SeenJobsDB.data\<close> is whatever \<open>json.load\<close> returned: a JSON value, not a typed record.
  A dict is an association list in insertion order; \<open>AList.update\<close> overwrites a key in
  place and appends a new one, as a Python dict does. Numbers are read as reals.
\<close>

datatype json =
    JNull
  | JBool bool
  | JNum real
  | JStr pystr
  | JList "json list"
  | JDict "(pystr \<times> json) list"

definition and_then :: "exn + 'a \<Rightarrow> ('a \<Rightarrow> exn + 'b) \<Rightarrow> exn + 'b" where
  "and_then r f = (case r of Inl e \<Rightarrow> Inl e | Inr x \<Rightarrow> f x)"

text \<open>
  \<open>obj[key]\<close>, \<open>obj[key] = v\<close>, \<open>key in obj\<close> for a string key, and \<open>len(obj)\<close>, with the
  exception Python raises on each kind of value.
\<close>

definition getitem :: "json \<Rightarrow> pystr \<Rightarrow> exn + json" where
  "getitem obj key =
     (case obj of
        JDict kvs \<Rightarrow> (case map_of kvs key of None \<Rightarrow> Inl KeyError | Some v \<Rightarrow> Inr v)
      | _ \<Rightarrow> Inl TypeError)"

definition setitem :: "json \<Rightarrow> pystr \<Rightarrow> json \<Rightarrow> exn + json" where
  "setitem obj key v =
     (case obj of
        JDict kvs \<Rightarrow> Inr (JDict (AList.update key v kvs))
      | _ \<Rightarrow> Inl TypeError)"

definition contains :: "json \<Rightarrow> pystr \<Rightarrow> exn + bool" where
  "contains obj key =
     (case obj of
        JDict kvs \<Rightarrow> Inr (key \<in> fst ` set kvs)
      | JList xs \<Rightarrow> Inr (JStr key \<in> set xs)
      | JStr s \<Rightarrow> Inr (is_in key s)
      | _ \<Rightarrow> Inl TypeError)"

definition len :: "json \<Rightarrow> exn + nat" where
  "len obj =
     (case obj of
        JDict kvs \<Rightarrow> Inr (length kvs)
      | JList xs \<Rightarrow> Inr (length xs)
      | JStr s \<Rightarrow> Inr (length s)
      | _ \<Rightarrow> Inl TypeError)"

definition empty_state :: json where
  "empty_state =
     JDict [(str ''seen'', JDict []), (str ''last_run'', JNull),
            (str ''stats'', JDict [(str ''total_seen'', JNum 0), (str ''total_reported'', JNum 0)])]"

text \<open>
  What \<open>_load\<close> finds at \<open>self.path\<close>: no file, bytes that are not text in the file's
  encoding (\<open>f.read()\<close> raises \<open>UnicodeDecodeError\<close>), text that is not JSON (\<open>json.load\<close>
  raises \<open>JSONDecodeError\<close>), or a JSON value. \<open>load\<close> returns the data and whether the
  warning was logged; only \<open>JSONDecodeError\<close> and \<open>KeyError\<close> are caught.
\<close>

datatype state_file = NoFile | NotText | NotJson | Json json

definition load :: "state_file \<Rightarrow> exn + json \<times> bool" where
  "load file =
     (case file of
        NoFile \<Rightarrow> Inr (empty_state, False)
      | NotText \<Rightarrow> Inl UnicodeDecodeError
      | NotJson \<Rightarrow> Inr (empty_state, True)
      | Json v \<Rightarrow> Inr (v, False))"

definition is_new :: "json \<Rightarrow> JobPosting \<Rightarrow> exn + bool" where
  "is_new data job =
     and_then (getitem data (str ''seen'')) (\<lambda>seen.
     and_then (contains seen (job_id job)) (\<lambda>found. Inr (\<not> found)))"

definition seen_record :: "'x pylib_scheme \<Rightarrow> int \<Rightarrow> JobPosting \<Rightarrow> json" where
  "seen_record L now job =
     JDict [(str ''title'', JStr (title job)), (str ''company'', JStr (company job)),
            (str ''first_seen'', JStr (py_isoformat L now)),
            (str ''score'', JNum (of_int (relevance_score job)))]"

definition mark_seen :: "'x pylib_scheme \<Rightarrow> int \<Rightarrow> JobPosting \<Rightarrow> json \<Rightarrow> exn + json" where
  "mark_seen L now job data =
     and_then (getitem data (str ''seen'')) (\<lambda>seen.
     and_then (setitem seen (job_id job) (seen_record L now job)) (\<lambda>seen'.
     setitem data (str ''seen'') seen'))"

text \<open>
  \<open>datetime.now() - timedelta(days=days)\<close>: a result outside 0001-01-01 .. 9999-12-31
  raises \<open>OverflowError\<close>.
\<close>

definition datetime_max :: int where
  "datetime_max = 315537897599999999"

definition cutoff_time :: "int \<Rightarrow> int \<Rightarrow> int" where
  "cutoff_time now days = now - days * 86400000000"

definition minus_days :: "int \<Rightarrow> int \<Rightarrow> exn + int" where
  "minus_days now days =
     (let t = cutoff_time now days in
      if 0 \<le> t \<and> t \<le> datetime_max then Inr t else Inl OverflowError)"

text \<open>\<open>datetime.fromisoformat(v["first_seen"])\<close> as a naive time.\<close>

definition first_seen :: "'x pylib_scheme \<Rightarrow> json \<Rightarrow> exn + int" where
  "first_seen L v =
     and_then (getitem v (str ''first_seen'')) (\<lambda>fs.
       case fs of
         JStr s \<Rightarrow>
           and_then (py_fromisoformat L s) (\<lambda>d.
             case d of Naive t \<Rightarrow> Inr t | Aware t \<Rightarrow> Inl TypeError)
       | _ \<Rightarrow> Inl TypeError)"

text \<open>
  The condition of the comprehension in \<open>cleanup\<close>. Comparing an aware datetime with the
  naive \<open>cutoff\<close> raises \<open>TypeError\<close>, which \<open>first_seen\<close> already returns.
\<close>

definition still_fresh :: "'x pylib_scheme \<Rightarrow> int \<Rightarrow> pystr \<times> json \<Rightarrow> exn + bool" where
  "still_fresh L cutoff kv = and_then (first_seen L (snd kv)) (\<lambda>t. Inr (t > cutoff))"

text \<open>A comprehension \<open>[x for x in xs if cond(x)]\<close> whose condition may raise.\<close>

fun filter_items :: "('a \<Rightarrow> exn + bool) \<Rightarrow> 'a list \<Rightarrow> exn + 'a list" where
  "filter_items cond [] = Inr []"
| "filter_items cond (x # xs) =
     and_then (cond x) (\<lambda>keep.
     and_then (filter_items cond xs) (\<lambda>rest. Inr (if keep then x # rest else rest)))"

definition items :: "json \<Rightarrow> exn + (pystr \<times> json) list" where
  "items obj = (case obj of JDict kvs \<Rightarrow> Inr kvs | _ \<Rightarrow> Inl AttributeError)"

definition cleanup :: "'x pylib_scheme \<Rightarrow> int \<Rightarrow> int \<Rightarrow> json \<Rightarrow> exn + json" where
  "cleanup L now days data =
     and_then (minus_days now days) (\<lambda>cutoff.
     and_then (getitem data (str ''seen'')) (\<lambda>seen.
     and_then (len seen) (\<lambda>before.
     and_then (items seen) (\<lambda>kvs.
     and_then (filter_items (still_fresh L cutoff) kvs) (\<lambda>kept.
     setitem data (str ''seen'') (JDict kept))))))"

text \<open>\<open>x += new_count\<close> on a JSON value \<open>x\<close>; a \<open>bool\<close> counts as 0 or 1.\<close>

definition add_count :: "json \<Rightarrow> nat \<Rightarrow> exn + json" where
  "add_count x n =
     (case x of
        JNum r \<Rightarrow> Inr (JNum (r + of_nat n))
      | JBool b \<Rightarrow> Inr (JNum ((if b then 1 else 0) + of_nat n))
      | _ \<Rightarrow> Inl TypeError)"

definition update_stats :: "nat \<Rightarrow> json \<Rightarrow> exn + json" where
  "update_stats new_count data =
     and_then (contains data (str ''stats'')) (\<lambda>has_stats.
     and_then (if has_stats then Inr data
               else setitem data (str ''stats'')
                      (JDict [(str ''total_seen'', JNum 0), (str ''total_reported'', JNum 0)]))
       (\<lambda>data1.
     and_then (getitem data1 (str ''seen'')) (\<lambda>seen.
     and_then (len seen) (\<lambda>n.
     and_then (getitem data1 (str ''stats'')) (\<lambda>stats.
     and_then (setitem stats (str ''total_seen'') (JNum (of_nat n))) (\<lambda>stats1.
     and_then (getitem stats1 (str ''total_reported'')) (\<lambda>old.
     and_then (add_count old new_count) (\<lambda>new.
     and_then (setitem stats1 (str ''total_reported'') new) (\<lambda>stats2.
     setitem data1 (str ''stats'') stats2)))))))))"

text \<open>
  \<open>save\<close> sets \<open>last_run\<close> and writes the data; the result is the value written.
  \<open>reset\<close> saves a fresh empty state.
\<close>

definition save :: "'x pylib_scheme \<Rightarrow> int \<Rightarrow> json \<Rightarrow> exn + json" where
  "save L now data = setitem data (str ''last_run'') (JStr (py_isoformat L now))"

definition reset :: "'x pylib_scheme \<Rightarrow> int \<Rightarrow> exn + json" where
  "reset L now = save L now empty_state"

section \<open>Orchestrator\<close>

text \<open>
  \<open>run\<close>. Its inputs beyond the configuration: the command-line flags, the state file, the
  result list of each adapter (empty for an adapter that raised), and the clock, where
  \<open>clock k\<close> is what the \<open>k\<close>-th call of \<open>datetime.now()\<close> on the store returns.
\<close>

record Args =
  args_dry_run :: bool
  args_reset :: bool
  args_source :: pystr

definition scraper_names :: "pystr list" where
  "scraper_names =
     [str ''linkedin'', str ''indeed'', str ''stepstone'', str ''careers'', str ''startups'',
      str ''remote'']"

definition active_scrapers :: "Args \<Rightarrow> pystr list option" where
  "active_scrapers args =
     (if args_source args \<noteq> []
      then (if args_source args \<in> set scraper_names then Some [args_source args] else None)
      else Some scraper_names)"

fun mark_all ::
  "'x pylib_scheme \<Rightarrow> (nat \<Rightarrow> int) \<Rightarrow> nat \<Rightarrow> JobPosting list \<Rightarrow> json \<Rightarrow> exn + json" where
  "mark_all L clock k [] data = Inr data"
| "mark_all L clock k (job # jobs) data =
     and_then (mark_seen L (clock k) job data) (mark_all L clock (Suc k) jobs)"

text \<open>The slice \<open>xs[:n]\<close>: a negative \<open>n\<close> counts from the end.\<close>

definition slice_to :: "int \<Rightarrow> 'a list \<Rightarrow> 'a list" where
  "slice_to n xs = (if n \<ge> 0 then take (nat n) xs else take (nat (int (length xs) + n)) xs)"

definition max_results :: "Config \<Rightarrow> int" where
  "max_results cfg = (case output_max_results_per_report cfg of None \<Rightarrow> 50 | Some n \<Rightarrow> n)"

text \<open>
  \<open>jobs.sort(key=lambda j: j.relevance_score, reverse=True)\<close> in
  \<open>ReportGenerator.generate\<close>: a stable sort, highest score first. The builders of the
  HTML and Markdown reports receive the list in this order.
\<close>

definition generate_order :: "JobPosting list \<Rightarrow> JobPosting list" where
  "generate_order jobs = sort_key (\<lambda>j. - relevance_score j) jobs"

record Report =
  unique_jobs :: "JobPosting list"
  relevant_jobs :: "JobPosting list"
  cleaned :: json
  new_jobs :: "JobPosting list"
  saved :: json
  report_jobs :: "JobPosting list"
  rendered :: "JobPosting list"

datatype outcome = DryRun | ResetDone json | UnknownSource | Reported Report

definition pipeline ::
  "'x pylib_scheme \<Rightarrow> Config \<Rightarrow> (nat \<Rightarrow> int) \<Rightarrow> json \<Rightarrow> JobPosting list \<Rightarrow> exn + Report" where
  "pipeline L cfg clock data all_jobs =
     (let unique = deduplicate all_jobs;
          scored = map (score L cfg) unique;
          relevant = filter (\<lambda>j. relevance_score j \<ge> min_score cfg) scored
      in
      and_then (filter_items (is_new data) relevant) (\<lambda>new.
      and_then (mark_all L clock 1 new data) (\<lambda>data2.
      and_then (update_stats (length new) data2) (\<lambda>data3.
      and_then (save L (clock (Suc (length new))) data3) (\<lambda>data4.
        Inr \<lparr>unique_jobs = unique, relevant_jobs = relevant, cleaned = data,
             new_jobs = new, saved = data4,
             report_jobs = slice_to (max_results cfg) new,
             rendered = generate_order (slice_to (max_results cfg) new)\<rparr>)))))"

definition run ::
  "'x pylib_scheme \<Rightarrow> Config \<Rightarrow> (nat \<Rightarrow> int) \<Rightarrow> Args \<Rightarrow> state_file
     \<Rightarrow> (pystr \<Rightarrow> JobPosting list) \<Rightarrow> exn + outcome" where
  "run L cfg clock args file adapters =
     (if args_dry_run args then Inr DryRun
      else
        and_then (load file) (\<lambda>loaded.
          if args_reset args
          then and_then (reset L (clock 0)) (\<lambda>d. Inr (ResetDone d))
          else
            and_then (cleanup L (clock 0) 30 (fst loaded)) (\<lambda>data.
              case active_scrapers args of
                None \<Rightarrow> Inr UnknownSource
              | Some names \<Rightarrow>
                  and_then (pipeline L cfg clock data (concat (map adapters names)))
                    (\<lambda>r. Inr (Reported r)))))"




section \<open>Sample library values\<close>

text \<open>
  The examples below need concrete library behaviour. On ASCII text \<open>str.lower\<close> folds
  A-Z, the digit class is 0-9, and the whitespace class is the ASCII white space; the
  digests and the ISO-8601 texts are those the library gives for the few values listed
  (any other argument is outside the examples).
\<close>

definition ascii_lower :: "pystr \<Rightarrow> pystr" where
  "ascii_lower s = map (\<lambda>c. if 65 \<le> c \<and> c \<le> 90 then c + 32 else c) s"

definition sample_digests :: "(pystr \<times> pystr) list" where
  "sample_digests =
     [(str ''Analyst|Beta|https://b.example/1'', str ''de1e5e627badcb73f54cc84933036fa5''),
      (str ''Data Manager|Acme|https://a.example/1'', str ''32b1ef61b79d52a2901ce6b31a64fb21''),
      (str ''Data Analyst|Acme|https://a.example/1'', str ''ad2f5d5c7f0d79cf6df8333a7f199f8e''),
      (str ''a|b|a|b'', str ''2ebab89f3fbd7451d0ba578fcb1e2257''),
      (str ''a|b|'', str ''66b69f6e54562b52ab37ccecbea18e40''),
      (str ''a|b|https://x.example/7'', str ''225c297fc23267d068b19ddc75320963''),
      (str ''Manager|Gamma|'', str ''5805c2133ec5f76c4c42f0ef8ccc2445''),
      (str ''Intern|Beta|'', str ''fc36fd6d5e3da04c6a5b2008cd7fd291'')]"

definition sample_md5 :: "pystr \<Rightarrow> pystr" where
  "sample_md5 raw = (case map_of sample_digests raw of Some d \<Rightarrow> d | None \<Rightarrow> [])"

definition sample_times :: "(int \<times> pystr) list" where
  "sample_times =
     [(63929286000000000, str ''2026-11-03T07:00:00''),
      (63929286001000000, str ''2026-11-03T07:00:01''),
      (63929286002000000, str ''2026-11-03T07:00:02''),
      (63929286003000000, str ''2026-11-03T07:00:03''),
      (63929372400000000, str ''2026-11-04T07:00:00''),
      (63929372401000000, str ''2026-11-04T07:00:01''),
      (63929372402000000, str ''2026-11-04T07:00:02''),
      (63929372403000000, str ''2026-11-04T07:00:03''),
      (63926780400000000, str ''2026-10-05T07:00:00''),
      (63926780401000000, str ''2026-10-05T07:00:01''),
      (63923860800000000, str ''2026-09-01T12:00:00'')]"

definition sample_isoformat :: "int \<Rightarrow> pystr" where
  "sample_isoformat t = (case map_of sample_times t of Some s \<Rightarrow> s | None \<Rightarrow> [])"

definition sample_fromisoformat :: "pystr \<Rightarrow> exn + datetime" where
  "sample_fromisoformat s =
     (case map_of (map (\<lambda>(t, s). (s, t)) sample_times) s of
        Some t \<Rightarrow> Inr (Naive t)
      | None \<Rightarrow> Inl ValueError)"

definition sample_lib :: pylib where
  "sample_lib =
     \<lparr>py_lower = ascii_lower,
      py_isdigit = (\<lambda>c. 48 \<le> c \<and> c \<le> 57),
      py_digit = (\<lambda>c. c - 48),
      py_isspace = (\<lambda>c. c \<in> {9, 10, 11, 12, 13, 28, 29, 30, 31, 32}),
      py_md5 = sample_md5,
      py_isoformat = sample_isoformat,
      py_fromisoformat = sample_fromisoformat\<rparr>"

section \<open>Notions used by the statements\<close>

text \<open>
  A hash collision: two different texts with one digest. \<open>one_field_changed\<close>: two
  postings differ in exactly one of title, company and url.
\<close>

definition hash_collision :: "'x pylib_scheme \<Rightarrow> pystr \<Rightarrow> pystr \<Rightarrow> bool" where
  "hash_collision L x y = (x \<noteq> y \<and> py_md5 L x = py_md5 L y)"

definition raw_of :: "JobPosting \<Rightarrow> pystr" where
  "raw_of p = identity_raw (title p) (company p) (url p)"

definition one_field_changed :: "JobPosting \<Rightarrow> JobPosting \<Rightarrow> bool" where
  "one_field_changed p q =
     ((title p \<noteq> title q \<and> company p = company q \<and> url p = url q) \<or>
      (title p = title q \<and> company p \<noteq> company q \<and> url p = url q) \<or>
      (title p = title q \<and> company p = company q \<and> url p \<noteq> url q))"

text \<open>
  The positions of \<open>xs\<close> that hold the first posting with their key: no earlier position
  has the same key.
\<close>

definition first_occurrences :: "JobPosting list \<Rightarrow> nat list" where
  "first_occurrences xs =
     filter (\<lambda>i. \<forall>j<i. dedup_key (xs ! j) \<noteq> dedup_key (xs ! i)) [0..<length xs]"

section \<open>Sample postings\<close>

definition unset :: JobPosting where
  "unset =
     \<lparr>title = [], company = [], location = [], url = [], source = [], description = [],
      salary_info = [], date_posted = [], relevance_score = 0, match_reasons = [],
      job_id = []\<rparr>"

definition manager_acme :: JobPosting where
  "manager_acme =
     new_posting sample_lib (str ''Data Manager'') (str ''Acme'') (str ''Berlin'')
       (str ''https://a.example/1'') (str ''LinkedIn'')"

definition analyst_acme :: JobPosting where
  "analyst_acme =
     new_posting sample_lib (str ''Data Analyst'') (str ''Acme'') (str ''Berlin'')
       (str ''https://a.example/1'') (str ''LinkedIn'')"

definition analyst_beta :: JobPosting where
  "analyst_beta =
     new_posting sample_lib (str ''Analyst'') (str ''Beta'') (str ''Berlin'')
       (str ''https://b.example/1'') (str ''LinkedIn'')"

definition ab_url_is_key :: JobPosting where
  "ab_url_is_key =
     new_posting sample_lib (str ''a'') (str ''b'') (str ''Berlin'') (str ''a|b'') (str ''Indeed'')"

definition ab_with_url :: JobPosting where
  "ab_with_url =
     new_posting sample_lib (str ''a'') (str ''b'') (str ''Berlin'')
       (str ''https://x.example/7'') (str ''Indeed'')"

definition ab_no_url :: JobPosting where
  "ab_no_url =
     new_posting sample_lib (str ''a'') (str ''b'') (str ''Berlin'') [] (str ''StepStone'')"

section \<open>The signals of the score, one by one\<close>

text \<open>
  The contribution of each of the seven rules as the specification words it: 35 for a
  target title or else 15 for a seniority indicator, 5 per keyword hit up to 30, 20 for
  an included location, 50 off per excluded location, 15 for a target company, the salary
  signal, and 40 off per negative keyword in the title. \<open>raw_sum\<close> is their sum.
\<close>

definition title_points :: "'x pylib_scheme \<Rightarrow> Config \<Rightarrow> JobPosting \<Rightarrow> int" where
  "title_points L cfg job =
     (if \<exists>target \<in> set (target_titles L cfg). is_in target (title_lower L job) then 35
      else if \<exists>indicator \<in> set (seniority_indicators L cfg). is_in indicator (title_lower L job)
      then 15 else 0)"

definition keyword_points :: "'x pylib_scheme \<Rightarrow> Config \<Rightarrow> JobPosting \<Rightarrow> int" where
  "keyword_points L cfg job =
     min 30 (int (length (filter (\<lambda>kw. is_in kw (full_text L job)) (positive_keywords L cfg))) * 5)"

definition location_points :: "'x pylib_scheme \<Rightarrow> Config \<Rightarrow> JobPosting \<Rightarrow> int" where
  "location_points L cfg job =
     (if \<exists>loc \<in> set (location_include L cfg). is_in loc (loc_lower L job) then 20 else 0)"

definition exclusion_points :: "'x pylib_scheme \<Rightarrow> Config \<Rightarrow> JobPosting \<Rightarrow> int" where
  "exclusion_points L cfg job =
     - 50 * int (length (filter (\<lambda>exc. is_in exc (loc_lower L job)) (location_exclude L cfg)))"

definition company_points :: "'x pylib_scheme \<Rightarrow> Config \<Rightarrow> JobPosting \<Rightarrow> int" where
  "company_points L cfg job =
     (if \<exists>tc \<in> set (target_companies cfg). company_matches L job tc then 15 else 0)"

definition salary_points :: "'x pylib_scheme \<Rightarrow> JobPosting \<Rightarrow> int" where
  "salary_points L job =
     (case salary_search L (salary_text L job) of
        None \<Rightarrow> 0
      | Some m \<Rightarrow>
          (case salary_amount L m of
             None \<Rightarrow> 0
           | Some amount \<Rightarrow> if amount \<ge> 100000 then 10 else if amount < 60000 then - 20 else 0))"

definition negative_points :: "'x pylib_scheme \<Rightarrow> Config \<Rightarrow> JobPosting \<Rightarrow> int" where
  "negative_points L cfg job =
     - 40 * int (length (filter (\<lambda>neg. is_in neg (title_lower L job)) (negative_keywords L cfg)))"

definition raw_sum :: "'x pylib_scheme \<Rightarrow> Config \<Rightarrow> JobPosting \<Rightarrow> int" where
  "raw_sum L cfg job =
     title_points L cfg job + keyword_points L cfg job + location_points L cfg job
     + exclusion_points L cfg job + company_points L cfg job + salary_points L job
     + negative_points L cfg job"

text \<open>
  The salary pattern read as a description of the matched text \<open>w\<close> and its two groups:
  two or three digits, at most one of \<open>.\<close> and \<open>,\<close>, an optional group of three digits,
  any white space, and a currency marker.
\<close>

definition salary_pattern :: "'x pylib_scheme \<Rightarrow> pystr \<Rightarrow> pystr option \<Rightarrow> pystr \<Rightarrow> bool" where
  "salary_pattern L g1 g2 w =
     (\<exists>sep ws cur.
        w = g1 @ sep @ (case g2 of None \<Rightarrow> [] | Some g \<Rightarrow> g) @ ws @ cur
        \<and> (length g1 = 2 \<or> length g1 = 3) \<and> list_all (py_isdigit L) g1
        \<and> (sep = [] \<or> sep = [46] \<or> sep = [44])
        \<and> (case g2 of None \<Rightarrow> True | Some g \<Rightarrow> length g = 3 \<and> list_all (py_isdigit L) g)
        \<and> list_all (py_isspace L) ws
        \<and> (cur = [8364] \<or> cur = str ''eur'' \<or> cur = str ''euro''))"

text \<open>The amount the rule reads from the two groups.\<close>

definition group_amount :: "'x pylib_scheme \<Rightarrow> pystr \<Rightarrow> pystr option \<Rightarrow> int" where
  "group_amount L g1 g2 =
     (case g2 of None \<Rightarrow> digits_value L g1 * 1000 | Some g \<Rightarrow> digits_value L (g1 @ g))"

section \<open>Sample configuration and scored postings\<close>

definition sample_cfg :: Config where
  "sample_cfg =
     \<lparr>profile_target_titles = [str ''Manager''],
      profile_positive_keywords = [str ''health'', str ''pharma''],
      profile_negative_keywords = [str ''Intern''],
      profile_min_relevance_score = 10,
      locations_include = [str ''Berlin''],
      locations_exclude = [str ''USA''],
      salary_seniority_indicators = [str ''Senior''],
      target_companies_by_category =
        [(str ''scaleups'', [\<lparr>name = str ''Acme'', careers_url = str ''https://a.example/jobs''\<rparr>])],
      output_max_results_per_report = Some 1\<rparr>"

definition manager_gamma :: JobPosting where
  "manager_gamma =
     new_posting sample_lib (str ''Manager'') (str ''Gamma'') (str ''Berlin'') [] (str ''StepStone'')"

definition intern_usa :: JobPosting where
  "intern_usa =
     new_posting sample_lib (str ''Intern'') (str ''Beta'') (str ''USA'') [] (str ''Indeed'')"

definition manager_gamma_120 :: JobPosting where
  "manager_gamma_120 = manager_gamma\<lparr>salary_info := str ''120.000 '' @ [8364]\<rparr>"

definition manager_gamma_50k :: JobPosting where
  "manager_gamma_50k = manager_gamma\<lparr>salary_info := str ''50k eur''\<rparr>"

section \<open>Notions used by the statements about the store\<close>

text \<open>
  The entries of the seen map of a state, when \<open>data["seen"]\<close> is a dict, and the time an
  entry's \<open>first_seen\<close> text stands for, when it is the ISO text of a naive datetime.
\<close>

definition seen_of :: "json \<Rightarrow> (pystr \<times> json) list" where
  "seen_of data = (case getitem data (str ''seen'') of Inr (JDict kvs) \<Rightarrow> kvs | _ \<Rightarrow> [])"

definition entry_time :: "'x pylib_scheme \<Rightarrow> pystr \<times> json \<Rightarrow> int" where
  "entry_time L kv = (case first_seen L (snd kv) of Inr t \<Rightarrow> t | Inl e \<Rightarrow> 0)"

definition readable :: "'x pylib_scheme \<Rightarrow> pystr \<times> json \<Rightarrow> bool" where
  "readable L kv = (case first_seen L (snd kv) of Inr t \<Rightarrow> True | Inl e \<Rightarrow> False)"

section \<open>Sample runs\<close>

definition normal_args :: Args where
  "normal_args = \<lparr>args_dry_run = False, args_reset = False, args_source = []\<rparr>"

definition day1_clock :: "nat \<Rightarrow> int" where
  "day1_clock k = 63929286000000000 + 1000000 * int k"

definition day2_clock :: "nat \<Rightarrow> int" where
  "day2_clock k = 63929372400000000 + 1000000 * int k"

definition scored_beta :: JobPosting where
  "scored_beta = score sample_lib sample_cfg analyst_beta"

definition scored_acme :: JobPosting where
  "scored_acme = score sample_lib sample_cfg manager_acme"

definition scored_gamma :: JobPosting where
  "scored_gamma = score sample_lib sample_cfg manager_gamma"

definition day1_adapters :: "pystr \<Rightarrow> JobPosting list" where
  "day1_adapters a = (if a = str ''linkedin'' then [analyst_beta, manager_acme] else [])"


definition store_with :: "(pystr \<times> json) list \<Rightarrow> pystr \<Rightarrow> real \<Rightarrow> real \<Rightarrow> json" where
  "store_with entries stamp n_seen n_reported =
     JDict [(str ''seen'', JDict entries), (str ''last_run'', JStr stamp),
            (str ''stats'', JDict [(str ''total_seen'', JNum n_seen),
                                   (str ''total_reported'', JNum n_reported)])]"

definition day1_saved :: json where
  "day1_saved =
     store_with
       [(job_id analyst_beta, seen_record sample_lib (day1_clock 1) scored_beta),
        (job_id manager_acme, seen_record sample_lib (day1_clock 2) scored_acme)]
       (str ''2026-11-03T07:00:03'') 2 2"

definition day1_report :: Report where
  "day1_report =
     \<lparr>unique_jobs = [analyst_beta, manager_acme],
      relevant_jobs = [scored_beta, scored_acme],
      cleaned = empty_state,
      new_jobs = [scored_beta, scored_acme],
      saved = day1_saved,
      report_jobs = [scored_beta],
      rendered = [scored_beta]\<rparr>"





definition rerun_adapters :: "pystr \<Rightarrow> JobPosting list" where
  "rerun_adapters a = (if a = str ''indeed'' then [manager_acme] else [])"




text \<open>
  A store with one entry first seen at 2026-10-05T07:00:00, which is 30 days before
  2026-11-04T07:00:00 to the microsecond, one with an entry a second younger, and one
  from 2026-09-01.
\<close>

definition boundary_entry :: "pystr \<times> json" where
  "boundary_entry = (job_id manager_acme, seen_record sample_lib 63926780400000000 scored_acme)"

definition fresh_entry :: "pystr \<times> json" where
  "fresh_entry = (job_id manager_acme, seen_record sample_lib 63926780401000000 scored_acme)"

definition old_entry :: "pystr \<times> json" where
  "old_entry = (job_id analyst_beta, seen_record sample_lib 63923860800000000 scored_beta)"

section \<open>Identity\<close>

lemma identity_eq: "identity L t c u = py_md5 L (identity_raw t c u)"
  by (simp add: identity_def new_posting_def post_init_def)

lemma post_init_job_id: "job_id p = [] \<Longrightarrow> job_id (post_init L p) = py_md5 L (raw_of p)"
  by (simp add: post_init_def raw_of_def)

lemma one_field_changed_raw: "one_field_changed p q \<Longrightarrow> raw_of p \<noteq> raw_of q"
  by (auto simp: one_field_changed_def raw_of_def identity_raw_def)

lemma sample_md5_simps:
  "sample_md5 (str ''Data Manager|Acme|https://a.example/1'') = str ''32b1ef61b79d52a2901ce6b31a64fb21''"
  "sample_md5 (str ''Data Analyst|Acme|https://a.example/1'') = str ''ad2f5d5c7f0d79cf6df8333a7f199f8e''"
  "sample_md5 (str ''Analyst|Beta|https://b.example/1'') = str ''de1e5e627badcb73f54cc84933036fa5''"
  "sample_md5 (str ''a|b|a|b'') = str ''2ebab89f3fbd7451d0ba578fcb1e2257''"
  "sample_md5 (str ''a|b|'') = str ''66b69f6e54562b52ab37ccecbea18e40''"
  "sample_md5 (str ''a|b|https://x.example/7'') = str ''225c297fc23267d068b19ddc75320963''"
  "sample_md5 (str ''Manager|Gamma|'') = str ''5805c2133ec5f76c4c42f0ef8ccc2445''"
  "sample_md5 (str ''Intern|Beta|'') = str ''fc36fd6d5e3da04c6a5b2008cd7fd291''"
  by (simp_all add: sample_md5_def sample_digests_def str_def)

text \<open>
  C10. The identity is the digest of the one string \<open>title|company|url\<close>, so two different
  triples can share it with no collision of the hash: title \<open>a|b\<close> with company \<open>c\<close>, and
  title \<open>a\<close> with company \<open>b|c\<close>, under any url and any hash function, give the same text
  and the same identity.
\<close>

theorem identity_separator_ambiguity:
  "identity_raw (str ''a|b'') (str ''c'') u = identity_raw (str ''a'') (str ''b|c'') u
   \<and> identity L (str ''a|b'') (str ''c'') u = identity L (str ''a'') (str ''b|c'') u
   \<and> (str ''a|b'', str ''c'', u) \<noteq> (str ''a'', str ''b|c'', u)"
  by (simp add: identity_eq identity_raw_def str_def)

theorem identity_separator_ambiguity_witness:
  "identity sample_lib (str ''a|b'') (str ''c'') [] = identity sample_lib (str ''a'') (str ''b|c'') []
   \<and> (str ''a|b'', str ''c'', []) \<noteq> (str ''a'', str ''b|c'', ([]::pystr))"
  using identity_separator_ambiguity [of "[]" sample_lib] by simp

text \<open>
  C9. Two postings built without a \<open>job_id\<close>: with the same title, company and url they
  get the same identity, whatever their other fields; when exactly one of the three
  fields differs, their identities differ unless the two hashed texts are a collision of
  the hash function.
\<close>

theorem identity_deterministic_field_sensitive:
  assumes "job_id p = []" and "job_id q = []"
  shows "(title p = title q \<and> company p = company q \<and> url p = url q
            \<longrightarrow> job_id (post_init L p) = job_id (post_init L q))
       \<and> (one_field_changed p q \<and> \<not> hash_collision L (raw_of p) (raw_of q)
            \<longrightarrow> job_id (post_init L p) \<noteq> job_id (post_init L q))"
  using assms one_field_changed_raw [of p q]
  by (auto simp: post_init_job_id hash_collision_def raw_of_def)

theorem identity_deterministic_field_sensitive_witness:
  "job_id (unset\<lparr>title := str ''Data Manager'', company := str ''Acme'',
              url := str ''https://a.example/1'', location := str ''Berlin''\<rparr>) = []
   \<and> job_id (post_init sample_lib
        (unset\<lparr>title := str ''Data Manager'', company := str ''Acme'',
               url := str ''https://a.example/1'', location := str ''Berlin''\<rparr>))
     = job_id (post_init sample_lib
        (unset\<lparr>title := str ''Data Manager'', company := str ''Acme'',
               url := str ''https://a.example/1'', location := str ''Remote''\<rparr>))
   \<and> one_field_changed
        (unset\<lparr>title := str ''Data Manager'', company := str ''Acme'',
               url := str ''https://a.example/1''\<rparr>)
        (unset\<lparr>title := str ''Data Analyst'', company := str ''Acme'',
               url := str ''https://a.example/1''\<rparr>)
   \<and> \<not> hash_collision sample_lib
        (str ''Data Manager|Acme|https://a.example/1'')
        (str ''Data Analyst|Acme|https://a.example/1'')
   \<and> job_id (post_init sample_lib
        (unset\<lparr>title := str ''Data Manager'', company := str ''Acme'',
               url := str ''https://a.example/1''\<rparr>))
     \<noteq> job_id (post_init sample_lib
        (unset\<lparr>title := str ''Data Analyst'', company := str ''Acme'',
               url := str ''https://a.example/1''\<rparr>))"
proof -
  let ?p = "unset\<lparr>title := str ''Data Manager'', company := str ''Acme'',
               url := str ''https://a.example/1''\<rparr>"
  let ?q = "unset\<lparr>title := str ''Data Analyst'', company := str ''Acme'',
               url := str ''https://a.example/1''\<rparr>"
  have raw: "raw_of ?p = str ''Data Manager|Acme|https://a.example/1''"
       "raw_of ?q = str ''Data Analyst|Acme|https://a.example/1''"
    by (simp_all add: raw_of_def identity_raw_def unset_def str_def)
  have changed: "one_field_changed ?p ?q"
    by (simp add: one_field_changed_def unset_def str_def)
  have free: "\<not> hash_collision sample_lib (raw_of ?p) (raw_of ?q)"
    unfolding raw by (simp add: hash_collision_def sample_lib_def sample_md5_simps) (simp add: str_def)
  have empty: "job_id ?p = []" "job_id ?q = []"
    by (simp_all add: unset_def)
  have same: "job_id (post_init sample_lib (?p\<lparr>location := str ''Berlin''\<rparr>))
      = job_id (post_init sample_lib (?p\<lparr>location := str ''Remote''\<rparr>))"
    using identity_deterministic_field_sensitive
      [of "?p\<lparr>location := str ''Berlin''\<rparr>" "?p\<lparr>location := str ''Remote''\<rparr>" sample_lib]
    by (simp add: unset_def)
  have differ: "job_id (post_init sample_lib ?p) \<noteq> job_id (post_init sample_lib ?q)"
    using identity_deterministic_field_sensitive [OF empty, of sample_lib] changed free
    by blast
  show ?thesis
    using same differ changed free unfolding raw by (simp add: unset_def)
qed

section \<open>Deduplication\<close>

lemma dedup_loop_acc: "dedup_loop seen acc xs = acc @ dedup_loop seen [] xs"
proof (induction xs arbitrary: seen acc)
  case Nil
  then show ?case by simp
next
  case (Cons x xs)
  show ?case
    using Cons.IH [of "insert (dedup_key x) seen" "acc @ [x]"]
          Cons.IH [of "insert (dedup_key x) seen" "[x]"] Cons.IH [of seen acc]
    by (simp add: Let_def)
qed

lemma dedup_loop_Cons:
  "dedup_loop seen [] (x # xs) =
     (if dedup_key x \<in> seen then dedup_loop seen [] xs
      else x # dedup_loop (insert (dedup_key x) seen) [] xs)"
  using dedup_loop_acc [of "insert (dedup_key x) seen" "[x]" xs] by (simp add: Let_def)

declare dedup_loop.simps(2) [simp del]

lemma dedup_loop_keys:
  "set (map dedup_key (dedup_loop seen [] xs)) = set (map dedup_key xs) - seen"
  by (induction xs arbitrary: seen) (auto simp: dedup_loop_Cons)

lemma dedup_loop_distinct: "distinct (map dedup_key (dedup_loop seen [] xs))"
proof (induction xs arbitrary: seen)
  case Nil
  then show ?case by simp
next
  case (Cons x xs)
  have "dedup_key x \<notin> set (map dedup_key (dedup_loop (insert (dedup_key x) seen) [] xs))"
    unfolding dedup_loop_keys by simp
  with Cons show ?case by (simp add: dedup_loop_Cons)
qed

lemma dedup_loop_fixed:
  "distinct (map dedup_key xs) \<Longrightarrow> set (map dedup_key xs) \<inter> seen = {}
     \<Longrightarrow> dedup_loop seen [] xs = xs"
proof (induction xs arbitrary: seen)
  case Nil
  then show ?case by simp
next
  case (Cons x xs)
  from Cons.prems have "dedup_key x \<notin> seen" by auto
  moreover from Cons.prems have "dedup_loop (insert (dedup_key x) seen) [] xs = xs"
    by (intro Cons.IH) auto
  ultimately show ?case by (simp add: dedup_loop_Cons)
qed

lemma dedup_loop_first:
  "dedup_loop seen [] xs =
     map (\<lambda>i. xs ! i)
       (filter (\<lambda>i. dedup_key (xs ! i) \<notin> seen
                    \<and> (\<forall>j<i. dedup_key (xs ! j) \<noteq> dedup_key (xs ! i))) [0..<length xs])"
proof (induction xs arbitrary: seen)
  case Nil
  then show ?case by simp
next
  case (Cons x xs)
  have upt: "[0..<length (x # xs)] = 0 # map Suc [0..<length xs]"
    by (simp add: upt_conv_Cons map_Suc_upt del: upt_Suc)
  have all: "\<And>i P. (\<forall>j<Suc i. P j) = (P 0 \<and> (\<forall>j<i. P (Suc j)))"
    by (metis less_Suc_eq_0_disj)
  show ?case
  proof (cases "dedup_key x \<in> seen")
    case True
    then have "filter (\<lambda>i. dedup_key ((x # xs) ! i) \<notin> seen
                    \<and> (\<forall>j<i. dedup_key ((x # xs) ! j) \<noteq> dedup_key ((x # xs) ! i)))
                 [0..<length (x # xs)]
        = map Suc (filter (\<lambda>i. dedup_key (xs ! i) \<notin> seen
                    \<and> (\<forall>j<i. dedup_key (xs ! j) \<noteq> dedup_key (xs ! i))) [0..<length xs])"
      unfolding upt
      by (auto simp add: filter_map comp_def all simp del: upt_Suc intro!: filter_cong)
    with True Cons show ?thesis by (simp add: dedup_loop_Cons comp_def)
  next
    case False
    then have "filter (\<lambda>i. dedup_key ((x # xs) ! i) \<notin> seen
                    \<and> (\<forall>j<i. dedup_key ((x # xs) ! j) \<noteq> dedup_key ((x # xs) ! i)))
                 [0..<length (x # xs)]
        = 0 # map Suc (filter (\<lambda>i. dedup_key (xs ! i) \<notin> insert (dedup_key x) seen
                    \<and> (\<forall>j<i. dedup_key (xs ! j) \<noteq> dedup_key (xs ! i))) [0..<length xs])"
      unfolding upt
      by (auto simp add: filter_map comp_def all simp del: upt_Suc intro!: filter_cong)
    with False Cons show ?thesis by (simp add: dedup_loop_Cons comp_def)
  qed
qed

lemma deduplicate_pair:
  "dedup_key p \<noteq> dedup_key q \<Longrightarrow> deduplicate [p, q] = [p, q]"
  by (simp add: deduplicate_def dedup_loop_Cons)

lemma deduplicate_pair_same:
  "dedup_key p = dedup_key q \<Longrightarrow> deduplicate [p, q] = [p]"
  by (simp add: deduplicate_def dedup_loop_Cons)

lemma sample_keys:
  "dedup_key ab_url_is_key = str ''a|b''"
  "dedup_key ab_no_url = str ''a|b''"
  "dedup_key ab_with_url = str ''https://x.example/7''"
  by (simp_all add: dedup_key_def ab_url_is_key_def ab_no_url_def ab_with_url_def
        new_posting_def post_init_def str_def)

text \<open>
  C3, as the code has it. The key of a posting is its url when that is non-empty, and
  otherwise the one string \<open>title|company\<close>. The deduplicator returns the postings at the
  first position of each key, in their order in the input: the keys of the output are
  distinct and are the keys of the input. Two postings with the same title and company,
  one with a url and one without, both stay, unless that url is the text \<open>title|company\<close>
  itself.
\<close>

theorem deduplicate_first_occurrences:
  "deduplicate xs = map (\<lambda>i. xs ! i) (first_occurrences xs)
   \<and> distinct (map dedup_key (deduplicate xs))
   \<and> set (map dedup_key (deduplicate xs)) = set (map dedup_key xs)
   \<and> (title p = title q \<and> company p = company q \<and> url p \<noteq> [] \<and> url q = []
        \<and> url p \<noteq> title p @ str ''|'' @ company p
      \<longrightarrow> dedup_key p \<noteq> dedup_key q
          \<and> deduplicate [p, q] = [p, q] \<and> deduplicate [q, p] = [q, p])"
proof -
  have "deduplicate xs = map (\<lambda>i. xs ! i) (first_occurrences xs)"
    unfolding deduplicate_def first_occurrences_def by (simp add: dedup_loop_first)
  moreover have "distinct (map dedup_key (deduplicate xs))"
    unfolding deduplicate_def by (rule dedup_loop_distinct)
  moreover have "set (map dedup_key (deduplicate xs)) = set (map dedup_key xs)"
    unfolding deduplicate_def dedup_loop_keys by simp
  moreover have "dedup_key p \<noteq> dedup_key q
          \<and> deduplicate [p, q] = [p, q] \<and> deduplicate [q, p] = [q, p]"
    if "title p = title q \<and> company p = company q \<and> url p \<noteq> [] \<and> url q = []
        \<and> url p \<noteq> title p @ str ''|'' @ company p"
  proof -
    from that have "dedup_key p \<noteq> dedup_key q" by (auto simp add: dedup_key_def)
    then show ?thesis using deduplicate_pair [of p q] deduplicate_pair [of q p] by simp
  qed
  ultimately show ?thesis by blast
qed

theorem deduplicate_first_occurrences_witness:
  "deduplicate [ab_with_url, ab_no_url, ab_with_url]
     = map (\<lambda>i. [ab_with_url, ab_no_url, ab_with_url] ! i) [0, 1]
   \<and> first_occurrences [ab_with_url, ab_no_url, ab_with_url] = [0, 1]
   \<and> title ab_with_url = title ab_no_url \<and> company ab_with_url = company ab_no_url
   \<and> url ab_with_url \<noteq> [] \<and> url ab_no_url = []
   \<and> url ab_with_url \<noteq> title ab_with_url @ str ''|'' @ company ab_with_url
   \<and> deduplicate [ab_with_url, ab_no_url] = [ab_with_url, ab_no_url]"
proof -
  have first: "first_occurrences [ab_with_url, ab_no_url, ab_with_url] = [0, 1]"
    by (simp add: first_occurrences_def sample_keys upt_conv_Cons less_Suc_eq str_def
          del: upt_Suc)
  have fields: "title ab_with_url = title ab_no_url \<and> company ab_with_url = company ab_no_url
      \<and> url ab_with_url \<noteq> [] \<and> url ab_no_url = []
      \<and> url ab_with_url \<noteq> title ab_with_url @ str ''|'' @ company ab_with_url"
    by (simp add: ab_with_url_def ab_no_url_def new_posting_def post_init_def str_def)
  have list: "map (\<lambda>i. [ab_with_url, ab_no_url, ab_with_url] ! i) [0, 1]
      = [ab_with_url, ab_no_url]"
    by simp
  from deduplicate_first_occurrences
      [of "[ab_with_url, ab_no_url, ab_with_url]" ab_with_url ab_no_url] fields
  have "deduplicate [ab_with_url, ab_no_url, ab_with_url]
          = map (\<lambda>i. [ab_with_url, ab_no_url, ab_with_url] ! i) [0, 1]"
    and "deduplicate [ab_with_url, ab_no_url] = [ab_with_url, ab_no_url]"
    unfolding first by blast+
  with first fields show ?thesis by blast
qed

text \<open>
  C3 as stated fails: a posting whose url is the text \<open>a|b\<close> and a posting with title
  \<open>a\<close>, company \<open>b\<close> and no url have the same title and company, one has a url and the
  other has none, and the deduplicator keeps only the first of them.
\<close>

theorem deduplicate_url_equal_to_pair_counterexample:
  "title ab_url_is_key = title ab_no_url \<and> company ab_url_is_key = company ab_no_url
   \<and> url ab_url_is_key \<noteq> [] \<and> url ab_no_url = []
   \<and> deduplicate [ab_url_is_key, ab_no_url] = [ab_url_is_key]"
proof -
  have "deduplicate [ab_url_is_key, ab_no_url] = [ab_url_is_key]"
    by (rule deduplicate_pair_same) (simp add: sample_keys)
  moreover have "title ab_url_is_key = title ab_no_url \<and> company ab_url_is_key = company ab_no_url
      \<and> url ab_url_is_key \<noteq> [] \<and> url ab_no_url = []"
    by (simp add: ab_url_is_key_def ab_no_url_def new_posting_def post_init_def str_def)
  ultimately show ?thesis by simp
qed

text \<open>
  C8. Deduplication is idempotent: deduplicating its own output returns that output, in
  the same order.
\<close>

theorem deduplicate_idempotent: "deduplicate (deduplicate xs) = deduplicate xs"
  unfolding deduplicate_def
  by (rule dedup_loop_fixed) (simp_all add: dedup_loop_distinct)

theorem deduplicate_idempotent_witness:
  "deduplicate (deduplicate [ab_with_url, ab_no_url, ab_with_url])
     = deduplicate [ab_with_url, ab_no_url, ab_with_url]"
  using deduplicate_idempotent [of "[ab_with_url, ab_no_url, ab_with_url]"] .

section \<open>Relevance scorer\<close>

lemma found_iff: "(\<exists>x\<in>set xs. P x) = (find P xs \<noteq> None)"
  by (auto simp: find_None_iff)

lemma fst_score_title: "fst (score_title L cfg job (s, rs)) = s + title_points L cfg job"
  by (simp add: score_title_def title_points_def found_iff split: option.splits)

lemma fst_score_keywords: "fst (score_keywords L cfg job (s, rs)) = s + keyword_points L cfg job"
  by (simp add: score_keywords_def keyword_points_def Let_def)

lemma fst_score_location: "fst (score_location L cfg job (s, rs)) = s + location_points L cfg job"
  by (simp add: score_location_def location_points_def found_iff split: option.splits)

lemma fst_fold_penalty:
  "fst (fold (\<lambda>x (score, reasons). if P x then (score - d, reasons @ [R x]) else (score, reasons)) xs (s, rs))
     = s - d * int (length (filter P xs))"
  by (induction xs arbitrary: s rs) (simp_all add: algebra_simps)

lemma fst_score_exclusions: "fst (score_exclusions L cfg job (s, rs)) = s + exclusion_points L cfg job"
  by (simp add: score_exclusions_def exclusion_points_def fst_fold_penalty)

lemma fst_score_company: "fst (score_company L cfg job (s, rs)) = s + company_points L cfg job"
  by (simp add: score_company_def company_points_def found_iff split: option.splits)

lemma fst_score_salary: "fst (score_salary L job (s, rs)) = s + salary_points L job"
  by (simp add: score_salary_def salary_points_def split: option.splits)

lemma fst_score_negative: "fst (score_negative L cfg job (s, rs)) = s + negative_points L cfg job"
  by (simp add: score_negative_def negative_points_def fst_fold_penalty)

lemma fst_raw_tally: "fst (raw_tally L cfg job) = raw_sum L cfg job"
proof -
  obtain s1 r1 where t1: "score_title L cfg job (0, []) = (s1, r1)" by (cases "score_title L cfg job (0, [])")
  obtain s2 r2 where t2: "score_keywords L cfg job (s1, r1) = (s2, r2)" by (cases "score_keywords L cfg job (s1, r1)")
  obtain s3 r3 where t3: "score_location L cfg job (s2, r2) = (s3, r3)" by (cases "score_location L cfg job (s2, r2)")
  obtain s4 r4 where t4: "score_exclusions L cfg job (s3, r3) = (s4, r4)" by (cases "score_exclusions L cfg job (s3, r3)")
  obtain s5 r5 where t5: "score_company L cfg job (s4, r4) = (s5, r5)" by (cases "score_company L cfg job (s4, r4)")
  obtain s6 r6 where t6: "score_salary L job (s5, r5) = (s6, r6)" by (cases "score_salary L job (s5, r5)")
  have "s1 = title_points L cfg job" using fst_score_title [of L cfg job 0 "[]"] t1 by simp
  moreover have "s2 = s1 + keyword_points L cfg job" using fst_score_keywords [of L cfg job s1 r1] t2 by simp
  moreover have "s3 = s2 + location_points L cfg job" using fst_score_location [of L cfg job s2 r2] t3 by simp
  moreover have "s4 = s3 + exclusion_points L cfg job" using fst_score_exclusions [of L cfg job s3 r3] t4 by simp
  moreover have "s5 = s4 + company_points L cfg job" using fst_score_company [of L cfg job s4 r4] t5 by simp
  moreover have "s6 = s5 + salary_points L job" using fst_score_salary [of L job s5 r5] t6 by simp
  moreover have "fst (raw_tally L cfg job) = s6 + negative_points L cfg job"
    unfolding raw_tally_def t1 t2 t3 t4 t5 t6 by (rule fst_score_negative)
  ultimately show ?thesis by (simp add: raw_sum_def)
qed

lemma lower_simps:
  "ascii_lower [] = []"
  "ascii_lower (c # cs) = (if 65 \<le> c \<and> c \<le> 90 then c + 32 else c) # ascii_lower cs"
  by (simp_all add: ascii_lower_def)

lemmas scorer_eval =
  score_def raw_tally_def score_title_def score_keywords_def score_location_def
  score_exclusions_def score_company_def score_salary_def score_negative_def
  title_lower_def full_text_def loc_lower_def salary_text_def company_matches_def
  target_titles_def seniority_indicators_def positive_keywords_def negative_keywords_def
  location_include_def location_exclude_def target_companies_def
  salary_match_at_def salary_choices_def salary_attempt_def take_digits_def
  after_separator_def at_currency_def salary_amount_def int_of_digits_def digits_value_def
  sample_cfg_def sample_lib_def new_posting_def post_init_def lower_simps str_def

lemma score_manager_acme:
  "score sample_lib sample_cfg manager_acme =
     manager_acme\<lparr>relevance_score := 70,
       match_reasons := [TitleMatch (str ''manager''), Location (str ''berlin''),
                         TargetCompany (str ''Acme'')]\<rparr>"
  by (simp add: scorer_eval manager_acme_def)

lemma score_analyst_beta:
  "score sample_lib sample_cfg analyst_beta =
     analyst_beta\<lparr>relevance_score := 20, match_reasons := [Location (str ''berlin'')]\<rparr>"
  by (simp add: scorer_eval analyst_beta_def)

lemma score_intern_usa:
  "score sample_lib sample_cfg intern_usa =
     intern_usa\<lparr>relevance_score := 0,
       match_reasons := [LocationExcluded (str ''usa''), Negative (str ''intern'')]\<rparr>"
  by (simp add: scorer_eval intern_usa_def)

text \<open>
  C7. For every posting and every profile the final score is the sum of the seven
  signals clamped to the range from 0 to 100: it equals \<open>max 0 (min 100 raw_sum)\<close>, so it
  is at least 0 and at most 100.
\<close>

theorem score_clamped:
  "relevance_score (score L cfg job) = max 0 (min 100 (raw_sum L cfg job))
   \<and> 0 \<le> relevance_score (score L cfg job) \<and> relevance_score (score L cfg job) \<le> 100"
proof -
  have "relevance_score (score L cfg job) = max 0 (min 100 (fst (raw_tally L cfg job)))"
    by (simp add: score_def split: prod.splits)
  then show ?thesis by (simp add: fst_raw_tally)
qed

theorem score_clamped_witness:
  "relevance_score (score sample_lib sample_cfg manager_acme) = 70
   \<and> raw_sum sample_lib sample_cfg manager_acme = 70
   \<and> relevance_score (score sample_lib sample_cfg intern_usa) = 0
   \<and> raw_sum sample_lib sample_cfg intern_usa \<le> 0"
  using score_clamped [of sample_lib sample_cfg manager_acme]
        score_clamped [of sample_lib sample_cfg intern_usa]
  by (auto simp add: score_manager_acme score_intern_usa max_def min_def split: if_splits)

subsection \<open>The salary rule\<close>

lemma take_digits_Some:
  "take_digits L n s = Some (g, r) \<Longrightarrow> s = g @ r \<and> length g = n \<and> list_all (py_isdigit L) g"
  by (auto simp: take_digits_def split: if_splits)

lemma take_digits_append:
  "length g = n \<Longrightarrow> list_all (py_isdigit L) g \<Longrightarrow> take_digits L n (g @ r) = Some (g, r)"
  by (simp add: take_digits_def)

lemma after_separator_Some:
  "after_separator s = Some r \<Longrightarrow> s = [46] @ r \<or> s = [44] @ r"
  by (auto simp: after_separator_def split: list.splits if_splits)

lemma at_currency_iff:
  "at_currency s = (\<exists>cur post. s = cur @ post \<and> (cur = [8364] \<or> cur = str ''eur'' \<or> cur = str ''euro''))"
  unfolding at_currency_def prefix_def by blast

lemma currency_after_space_sound:
  "currency_after_space L s \<Longrightarrow>
     \<exists>ws cur post. s = ws @ cur @ post \<and> list_all (py_isspace L) ws
       \<and> (cur = [8364] \<or> cur = str ''eur'' \<or> cur = str ''euro'')"
proof (induction s)
  case Nil
  then show ?case by simp
next
  case (Cons c cs)
  show ?case
  proof (cases "at_currency (c # cs)")
    case True
    then obtain cur post where "c # cs = cur @ post"
        "cur = [8364] \<or> cur = str ''eur'' \<or> cur = str ''euro''"
      unfolding at_currency_iff by blast
    then have "c # cs = [] @ cur @ post \<and> list_all (py_isspace L) []
        \<and> (cur = [8364] \<or> cur = str ''eur'' \<or> cur = str ''euro'')" by simp
    then show ?thesis by blast
  next
    case False
    with Cons.prems have sp: "py_isspace L c" and rest: "currency_after_space L cs" by simp_all
    from Cons.IH [OF rest] obtain ws cur post where
      "cs = ws @ cur @ post" "list_all (py_isspace L) ws"
      "cur = [8364] \<or> cur = str ''eur'' \<or> cur = str ''euro''" by blast
    with sp have "c # cs = (c # ws) @ cur @ post \<and> list_all (py_isspace L) (c # ws)
        \<and> (cur = [8364] \<or> cur = str ''eur'' \<or> cur = str ''euro'')" by simp
    then show ?thesis by blast
  qed
qed

lemma cur_nonempty:
  "cur = [8364] \<or> cur = str ''eur'' \<or> cur = str ''euro'' \<Longrightarrow> cur \<noteq> []"
  by (auto simp: str_def)

lemma currency_after_space_complete:
  assumes "list_all (py_isspace L) ws"
    and "cur = [8364] \<or> cur = str ''eur'' \<or> cur = str ''euro''"
  shows "currency_after_space L (ws @ cur @ post)"
  using assms(1)
proof (induction ws)
  case Nil
  from assms(2) have "at_currency (cur @ post)" unfolding at_currency_iff by blast
  moreover from cur_nonempty [OF assms(2)] obtain c cs where "cur @ post = c # cs"
    by (cases "cur @ post") auto
  ultimately show ?case by simp
next
  case (Cons c ws)
  then show ?case by simp
qed

lemma salary_attempt_Some:
  assumes "salary_attempt L s (n1, sep, grp) = Some (g1, g2)"
  shows "\<exists>r1 r2 r3. take_digits L n1 s = Some (g1, r1)
           \<and> (if sep then after_separator r1 else Some r1) = Some r2
           \<and> (if grp then \<exists>g. take_digits L 3 r2 = Some (g, r3) \<and> g2 = Some g
               else g2 = None \<and> r3 = r2)
           \<and> currency_after_space L r3"
proof (cases "take_digits L n1 s")
  case None
  with assms show ?thesis by (simp add: salary_attempt_def)
next
  case (Some a)
  obtain h1 r1 where a: "a = (h1, r1)" by (cases a)
  show ?thesis
  proof (cases "if sep then after_separator r1 else Some r1")
    case None
    with assms Some a show ?thesis by (simp add: salary_attempt_def)
  next
    case r2: (Some r2)
    show ?thesis
    proof (cases grp)
      case True
      show ?thesis
      proof (cases "take_digits L 3 r2")
        case None
        with assms Some a r2 True show ?thesis by (simp add: salary_attempt_def)
      next
        case g: (Some b)
        obtain g r3 where b: "b = (g, r3)" by (cases b)
        from assms Some a r2 True g b have "currency_after_space L r3" "h1 = g1" "g2 = Some g"
          by (simp_all add: salary_attempt_def split: if_splits)
        with Some a r2 True g b show ?thesis by auto
      qed
    next
      case False
      from assms Some a r2 False have "currency_after_space L r2" "h1 = g1" "g2 = None"
        by (simp_all add: salary_attempt_def split: if_splits)
      with Some a r2 False show ?thesis by auto
    qed
  qed
qed

lemma salary_attempt_sound:
  assumes "salary_attempt L s (n1, sep, grp) = Some (g1, g2)" and "n1 = 2 \<or> n1 = 3"
  shows "\<exists>w post. s = w @ post \<and> salary_pattern L g1 g2 w"
proof -
  from salary_attempt_Some [OF assms(1)] obtain r1 r2 r3 where
    d1: "take_digits L n1 s = Some (g1, r1)"
    and s2: "(if sep then after_separator r1 else Some r1) = Some r2"
    and d3: "(if grp then \<exists>g. take_digits L 3 r2 = Some (g, r3) \<and> g2 = Some g
               else g2 = None \<and> r3 = r2)"
    and cur: "currency_after_space L r3" by blast
  from take_digits_Some [OF d1] assms(2)
  have g1: "s = g1 @ r1" "length g1 = 2 \<or> length g1 = 3" "list_all (py_isdigit L) g1" by auto
  from s2 obtain sp where sp: "r1 = sp @ r2" "sp = [] \<or> sp = [46] \<or> sp = [44]"
    using after_separator_Some [of r1 r2] by (cases sep) auto
  have g2: "r2 = (case g2 of None \<Rightarrow> [] | Some g \<Rightarrow> g) @ r3
      \<and> (case g2 of None \<Rightarrow> True | Some g \<Rightarrow> length g = 3 \<and> list_all (py_isdigit L) g)"
  proof (cases grp)
    case True
    with d3 obtain g where "take_digits L 3 r2 = Some (g, r3)" "g2 = Some g" by auto
    with take_digits_Some [of L 3 r2 g r3] show ?thesis by simp
  next
    case False
    with d3 show ?thesis by simp
  qed
  from currency_after_space_sound [OF cur] obtain ws c post where
    ws: "r3 = ws @ c @ post" "list_all (py_isspace L) ws"
      "c = [8364] \<or> c = str ''eur'' \<or> c = str ''euro''" by blast
  have "s = (g1 @ sp @ (case g2 of None \<Rightarrow> [] | Some g \<Rightarrow> g) @ ws @ c) @ post"
    using g1(1) sp(1) g2 ws(1) by simp
  moreover have "salary_pattern L g1 g2 (g1 @ sp @ (case g2 of None \<Rightarrow> [] | Some g \<Rightarrow> g) @ ws @ c)"
    unfolding salary_pattern_def using g1(2,3) sp(2) g2 ws(2,3) by blast
  ultimately show ?thesis by blast
qed

lemma first_some_Some:
  "first_some (map f xs) = Some m \<Longrightarrow> \<exists>x\<in>set xs. f x = Some m"
proof (induction xs)
  case Nil
  then show ?case by simp
next
  case (Cons x xs)
  then show ?case by (cases "f x") auto
qed

lemma first_some_None:
  "first_some (map f xs) = None \<Longrightarrow> \<forall>x\<in>set xs. f x = None"
proof (induction xs)
  case Nil
  then show ?case by simp
next
  case (Cons x xs)
  then show ?case by (cases "f x") auto
qed

lemma salary_match_at_sound:
  assumes "salary_match_at L s = Some (g1, g2)"
  shows "\<exists>w post. s = w @ post \<and> salary_pattern L g1 g2 w"
proof -
  from first_some_Some [OF assms [unfolded salary_match_at_def]]
  obtain ch where ch: "ch \<in> set salary_choices" "salary_attempt L s ch = Some (g1, g2)" by blast
  obtain n1 sep grp where c: "ch = (n1, sep, grp)" by (cases ch)
  with ch(1) have "n1 = 2 \<or> n1 = 3" by (auto simp: salary_choices_def)
  with ch(2) c show ?thesis using salary_attempt_sound by blast
qed

lemma salary_search_sound:
  "salary_search L s = Some (g1, g2) \<Longrightarrow> \<exists>pre w post. s = pre @ w @ post \<and> salary_pattern L g1 g2 w"
proof (induction s)
  case Nil
  then have "salary_match_at L [] = Some (g1, g2)" by simp
  from salary_match_at_sound [OF this] obtain w post where "[] = w @ post" "salary_pattern L g1 g2 w"
    by blast
  then have "[] = [] @ w @ post \<and> salary_pattern L g1 g2 w" by simp
  then show ?case by blast
next
  case (Cons c cs)
  show ?case
  proof (cases "salary_match_at L (c # cs)")
    case None
    with Cons.prems have "salary_search L cs = Some (g1, g2)" by simp
    from Cons.IH [OF this] obtain pre w post where "cs = pre @ w @ post" "salary_pattern L g1 g2 w"
      by blast
    then have "c # cs = (c # pre) @ w @ post \<and> salary_pattern L g1 g2 w" by simp
    then show ?thesis by blast
  next
    case (Some m)
    with Cons.prems have "salary_match_at L (c # cs) = Some (g1, g2)" by simp
    from salary_match_at_sound [OF this] obtain w post where
      "c # cs = w @ post" "salary_pattern L g1 g2 w" by blast
    then have "c # cs = [] @ w @ post \<and> salary_pattern L g1 g2 w" by simp
    then show ?thesis by blast
  qed
qed

lemma salary_match_at_complete:
  assumes "salary_pattern L g1 g2 w"
  shows "salary_match_at L (w @ post) \<noteq> None"
proof -
  from assms obtain sp ws cur where
    w: "w = g1 @ sp @ (case g2 of None \<Rightarrow> [] | Some g \<Rightarrow> g) @ ws @ cur"
    and g1: "length g1 = 2 \<or> length g1 = 3" "list_all (py_isdigit L) g1"
    and sp: "sp = [] \<or> sp = [46] \<or> sp = [44]"
    and g2: "(case g2 of None \<Rightarrow> True | Some g \<Rightarrow> length g = 3 \<and> list_all (py_isdigit L) g)"
    and ws: "list_all (py_isspace L) ws"
    and cur: "cur = [8364] \<or> cur = str ''eur'' \<or> cur = str ''euro''"
    unfolding salary_pattern_def by blast
  let ?ch = "(length g1, sp \<noteq> [], g2 \<noteq> None)"
  have mem: "?ch \<in> set salary_choices" using g1(1) by (auto simp: salary_choices_def)
  have c: "currency_after_space L (ws @ cur @ post)"
    by (rule currency_after_space_complete [OF ws cur])
  have sepd: "(if sp \<noteq> [] then after_separator (sp @ r) else Some (sp @ r)) = Some r" for r
    using sp by (auto simp: after_separator_def)
  have "salary_attempt L (w @ post) ?ch = Some (g1, g2)"
  proof (cases g2)
    case None
    then show ?thesis
      using take_digits_append [OF refl g1(2)] sepd c
      by (simp add: salary_attempt_def w)
  next
    case (Some g)
    with g2 have "take_digits L 3 (g @ r) = Some (g, r)" for r
      by (simp add: take_digits_append)
    with Some show ?thesis
      using take_digits_append [OF refl g1(2)] sepd c
      by (simp add: salary_attempt_def w)
  qed
  then have att: "salary_attempt L (w @ post) ?ch \<noteq> None" by simp
  show ?thesis
  proof
    assume "salary_match_at L (w @ post) = None"
    then have "\<forall>x\<in>set salary_choices. salary_attempt L (w @ post) x = None"
      unfolding salary_match_at_def by (rule first_some_None)
    then have "salary_attempt L (w @ post) ?ch = None" using mem by (rule bspec)
    with att show False by simp
  qed
qed

lemma salary_pattern_amount:
  assumes "salary_pattern L g1 g2 w"
  shows "salary_amount L (g1, g2) = Some (group_amount L g1 g2)"
proof -
  from assms have g1: "g1 \<noteq> []" "list_all (py_isdigit L) g1"
    and g2: "(case g2 of None \<Rightarrow> True | Some g \<Rightarrow> list_all (py_isdigit L) g)"
    unfolding salary_pattern_def by (auto split: option.splits)
  then show ?thesis
    by (auto simp: salary_amount_def group_amount_def int_of_digits_def split: option.splits)
qed

lemma salary_search_complete:
  "salary_pattern L g1 g2 w \<Longrightarrow> salary_search L (pre @ w @ post) \<noteq> None"
proof (induction pre)
  case Nil
  from salary_match_at_complete [OF Nil, of post] show ?case
    by (cases "w @ post") (auto split: option.splits)
next
  case (Cons c pre)
  then show ?case by (auto split: option.splits)
qed

text \<open>
  C2, as the code has it. The salary rule searches the lower-cased text of \<open>salary_info\<close>,
  a space and the first 1000 characters of \<open>description\<close>. A match is two or three digits,
  at most one \<open>.\<close> or \<open>,\<close>, an optional group of three digits, any white space and then at
  once a currency marker (the euro sign, \<open>eur\<close> or \<open>euro\<close>): the search finds a match
  exactly when the text holds such a run. Without the group the amount is the number
  times 1000, with it the digits of both groups read as one number. An amount of 100000
  or more adds 10, an amount below 60000 takes 20 off, any other leaves the score as it
  was. A number followed by \<open>k\<close> is not matched.
\<close>

theorem salary_rule_reads_pattern:
  "score_salary L job (s, rs) =
     (case salary_search L
             (py_lower L (salary_info job @ str '' '' @ take 1000 (description job))) of
        None \<Rightarrow> (s, rs)
      | Some (g1, g2) \<Rightarrow>
          if group_amount L g1 g2 \<ge> 100000
          then (s + 10, rs @ [Salary (group_amount L g1 g2)])
          else if group_amount L g1 g2 < 60000
          then (s - 20, rs @ [LowSalary (group_amount L g1 g2)])
          else (s, rs))
   \<and> (salary_search L text = Some (g1, g2)
        \<longrightarrow> (\<exists>pre w post. text = pre @ w @ post \<and> salary_pattern L g1 g2 w))
   \<and> (salary_pattern L g1 g2 w \<longrightarrow> salary_search L (pre @ w @ post) \<noteq> None)"
proof (intro conjI impI)
  show "score_salary L job (s, rs) =
     (case salary_search L
             (py_lower L (salary_info job @ str '' '' @ take 1000 (description job))) of
        None \<Rightarrow> (s, rs)
      | Some (g1, g2) \<Rightarrow>
          if group_amount L g1 g2 \<ge> 100000
          then (s + 10, rs @ [Salary (group_amount L g1 g2)])
          else if group_amount L g1 g2 < 60000
          then (s - 20, rs @ [LowSalary (group_amount L g1 g2)])
          else (s, rs))"
  proof (cases "salary_search L (salary_text L job)")
    case None
    then show ?thesis by (simp add: score_salary_def salary_text_def)
  next
    case (Some m)
    obtain a b where m: "m = (a, b)" by (cases m)
    from salary_search_sound [OF Some [unfolded m]] obtain w where "salary_pattern L a b w" by blast
    from salary_pattern_amount [OF this] Some m show ?thesis
      by (simp add: score_salary_def salary_text_def)
  qed
next
  assume "salary_search L text = Some (g1, g2)"
  then show "\<exists>pre w post. text = pre @ w @ post \<and> salary_pattern L g1 g2 w"
    by (rule salary_search_sound)
next
  assume "salary_pattern L g1 g2 w"
  then show "salary_search L (pre @ w @ post) \<noteq> None"
    by (rule salary_search_complete)
qed

lemma salary_text_gamma_120:
  "salary_text sample_lib manager_gamma_120 = str ''120.000 '' @ [8364] @ str '' ''"
  by (simp add: manager_gamma_120_def manager_gamma_def scorer_eval)

lemma salary_search_gamma_120:
  "salary_search sample_lib (str ''120.000 '' @ [8364] @ str '' '')
     = Some (str ''120'', Some (str ''000''))"
  by (simp add: scorer_eval)

lemma group_amount_120: "group_amount sample_lib (str ''120'') (Some (str ''000'')) = 120000"
  by (simp add: group_amount_def scorer_eval)

lemma salary_pattern_120:
  "salary_pattern sample_lib (str ''120'') (Some (str ''000'')) (str ''120.000 '' @ [8364])"
proof -
  have "str ''120.000 '' @ [8364]
          = str ''120'' @ [46] @ (case Some (str ''000'') of None \<Rightarrow> [] | Some g \<Rightarrow> g)
              @ [32] @ [8364]
        \<and> (length (str ''120'') = 2 \<or> length (str ''120'') = 3)
        \<and> list_all (py_isdigit sample_lib) (str ''120'')
        \<and> ([46] = [] \<or> [46] = [46::nat] \<or> [46] = [44::nat])
        \<and> (case Some (str ''000'') of None \<Rightarrow> True
            | Some g \<Rightarrow> length g = 3 \<and> list_all (py_isdigit sample_lib) g)
        \<and> list_all (py_isspace sample_lib) [32]
        \<and> ([8364] = [8364::nat] \<or> [8364] = str ''eur'' \<or> [8364] = str ''euro'')"
    by (simp add: sample_lib_def str_def)
  then show ?thesis unfolding salary_pattern_def by blast
qed

theorem salary_rule_reads_pattern_witness:
  "score_salary sample_lib manager_gamma_120 (55, []) = (65, [Salary 120000])
   \<and> salary_search sample_lib (str ''120.000 '' @ [8364] @ str '' '')
       = Some (str ''120'', Some (str ''000''))
   \<and> (\<exists>pre w post. str ''120.000 '' @ [8364] @ str '' '' = pre @ w @ post
         \<and> salary_pattern sample_lib (str ''120'') (Some (str ''000'')) w)
   \<and> salary_pattern sample_lib (str ''120'') (Some (str ''000'')) (str ''120.000 '' @ [8364])
   \<and> salary_search sample_lib ([] @ (str ''120.000 '' @ [8364]) @ str '' '') \<noteq> None"
proof -
  note rule = salary_rule_reads_pattern
    [of sample_lib manager_gamma_120 55 "[]" "str ''120.000 '' @ [8364] @ str '' ''"
        "str ''120''" "Some (str ''000'')" "str ''120.000 '' @ [8364]" "[]" "str '' ''"]
  have lowered: "py_lower sample_lib
        (salary_info manager_gamma_120 @ str '' '' @ take 1000 (description manager_gamma_120))
      = str ''120.000 '' @ [8364] @ str '' ''"
    using salary_text_gamma_120 by (simp add: salary_text_def)
  from rule have "score_salary sample_lib manager_gamma_120 (55, []) = (65, [Salary 120000])"
    unfolding lowered salary_search_gamma_120 by (simp add: group_amount_120)
  moreover from rule salary_search_gamma_120
  have "\<exists>pre w post. str ''120.000 '' @ [8364] @ str '' '' = pre @ w @ post
         \<and> salary_pattern sample_lib (str ''120'') (Some (str ''000'')) w"
    by blast
  moreover from rule salary_pattern_120
  have "salary_search sample_lib ([] @ (str ''120.000 '' @ [8364]) @ str '' '') \<noteq> None"
    by blast
  ultimately show ?thesis using salary_search_gamma_120 salary_pattern_120 by blast
qed

text \<open>
  C2 as stated fails on the \<open>95k eur\<close> style: the letter between the number and the
  currency marker stops the match. A posting with a target title in an included location
  and the salary text \<open>50k eur\<close> keeps its score of 55; the claim has 20 taken off for an
  amount of 50000.
\<close>

theorem salary_k_suffix_counterexample:
  "salary_search sample_lib (str ''95k eur'') = None
   \<and> salary_text sample_lib manager_gamma_50k = str ''50k eur ''
   \<and> salary_search sample_lib (str ''50k eur '') = None
   \<and> score_salary sample_lib manager_gamma_50k (55, []) = (55, [])
   \<and> score sample_lib sample_cfg manager_gamma_50k =
       manager_gamma_50k\<lparr>relevance_score := 55,
         match_reasons := [TitleMatch (str ''manager''), Location (str ''berlin'')]\<rparr>"
proof -
  have a: "salary_search sample_lib (str ''95k eur'') = None"
    by (simp add: scorer_eval)
  have b: "salary_text sample_lib manager_gamma_50k = str ''50k eur ''"
    by (simp add: manager_gamma_50k_def manager_gamma_def scorer_eval)
  have c: "salary_search sample_lib (str ''50k eur '') = None"
    by (simp add: scorer_eval)
  have d: "score_salary sample_lib manager_gamma_50k (55, []) = (55, [])"
    unfolding score_salary_def b c by simp
  have e: "score sample_lib sample_cfg manager_gamma_50k =
       manager_gamma_50k\<lparr>relevance_score := 55,
         match_reasons := [TitleMatch (str ''manager''), Location (str ''berlin'')]\<rparr>"
    by (simp add: manager_gamma_50k_def manager_gamma_def scorer_eval)
  from a b c d e show ?thesis by blast
qed

section \<open>Seen-jobs database\<close>

lemma and_then_simps [simp]:
  "and_then (Inr x) f = f x"
  "and_then (Inl e) f = Inl e"
  by (simp_all add: and_then_def)

lemma and_then_Inr: "and_then r f = Inr y \<longleftrightarrow> (\<exists>x. r = Inr x \<and> f x = Inr y)"
  by (cases r) simp_all

lemma filter_items_result:
  "filter_items cond xs = Inr ys \<Longrightarrow>
     ys = filter (\<lambda>x. cond x = Inr True) xs \<and> (\<forall>x\<in>set xs. \<exists>b. cond x = Inr b)"
proof (induction xs arbitrary: ys)
  case Nil
  then show ?case by simp
next
  case (Cons x xs)
  from Cons.prems obtain keep rest where
    k: "cond x = Inr keep" and r: "filter_items cond xs = Inr rest"
    and ys: "ys = (if keep then x # rest else rest)"
    by (auto simp: and_then_Inr)
  from Cons.IH [OF r] k ys show ?case by auto
qed

lemma filter_items_total:
  "\<forall>x\<in>set xs. \<exists>b. cond x = Inr b \<Longrightarrow>
     filter_items cond xs = Inr (filter (\<lambda>x. cond x = Inr True) xs)"
proof (induction xs)
  case Nil
  then show ?case by simp
next
  case (Cons x xs)
  then obtain b where "cond x = Inr b" by auto
  with Cons show ?case by auto
qed

lemma getitem_JDict [simp]:
  "getitem (JDict kvs) k = (case map_of kvs k of None \<Rightarrow> Inl KeyError | Some v \<Rightarrow> Inr v)"
  by (simp add: getitem_def)

lemma setitem_JDict [simp]: "setitem (JDict kvs) k v = Inr (JDict (AList.update k v kvs))"
  by (simp add: setitem_def)

lemma getitem_Inr: "getitem d k = Inr v \<Longrightarrow> \<exists>kvs. d = JDict kvs \<and> map_of kvs k = Some v"
  by (cases d) (auto simp: getitem_def split: option.splits)

lemma setitem_Inr: "setitem d k v = Inr d' \<Longrightarrow> \<exists>kvs. d = JDict kvs \<and> d' = JDict (AList.update k v kvs)"
  by (cases d) (auto simp: setitem_def)

lemma getitem_setitem:
  "setitem d k v = Inr d' \<Longrightarrow> getitem d' k' = (if k' = k then Inr v else getitem d k')"
  by (auto dest!: setitem_Inr simp: update_conv')

lemma setitem_same: "getitem d k = Inr v \<Longrightarrow> setitem d k v = Inr d"
  by (auto dest!: getitem_Inr simp: update_triv)



lemma still_fresh_readable:
  "readable L kv \<Longrightarrow> still_fresh L cutoff kv = Inr (cutoff < entry_time L kv)"
  by (auto simp: readable_def still_fresh_def entry_time_def split: sum.splits)


lemma minus_days_Inr:
  "minus_days now days = Inr c \<longleftrightarrow>
     (c = cutoff_time now days \<and> 0 \<le> cutoff_time now days \<and> cutoff_time now days \<le> datetime_max)"
  by (auto simp: minus_days_def Let_def)

lemma cleanup_readable:
  assumes seen: "getitem data (str ''seen'') = Inr (JDict entries)"
    and rd: "list_all (readable L) entries"
    and lo: "0 \<le> cutoff_time now days" and hi: "cutoff_time now days \<le> datetime_max"
  shows "cleanup L now days data =
     setitem data (str ''seen'') (JDict (filter (\<lambda>kv. cutoff_time now days < entry_time L kv) entries))"
proof -
  have md: "minus_days now days = Inr (cutoff_time now days)"
    using lo hi by (simp add: minus_days_Inr)
  have "\<forall>kv\<in>set entries. \<exists>b. still_fresh L (cutoff_time now days) kv = Inr b"
    using rd by (auto simp: list_all_iff still_fresh_readable)
  from filter_items_total [OF this]
  have "filter_items (still_fresh L (cutoff_time now days)) entries
      = Inr (filter (\<lambda>kv. still_fresh L (cutoff_time now days) kv = Inr True) entries)" .
  also have "filter (\<lambda>kv. still_fresh L (cutoff_time now days) kv = Inr True) entries
      = filter (\<lambda>kv. cutoff_time now days < entry_time L kv) entries"
    using rd by (intro filter_cong refl) (simp add: list_all_iff still_fresh_readable)
  finally show ?thesis
    by (simp add: cleanup_def md seen len_def items_def)
qed


text \<open>
  C5, as the code has it. On a store whose seen map is a dict of entries with a readable
  \<open>first_seen\<close>, and for a retention window whose cutoff \<open>now - days\<close> is a datetime,
  \<open>cleanup\<close> succeeds and keeps exactly the entries first seen after the cutoff, in their
  order and unchanged: every remaining entry is younger than the window, every younger
  entry remains, every entry first seen at or before the cutoff is gone (also the one
  first seen exactly at the cutoff), every other key of the state is untouched, and a
  store with no expired entry, the empty store among them, is returned as it was.
\<close>

theorem cleanup_removes_expired:
  assumes "getitem data (str ''seen'') = Inr (JDict entries)"
    and "list_all (readable L) entries"
    and "0 \<le> cutoff_time now days" and "cutoff_time now days \<le> datetime_max"
  shows "(\<exists>data'. cleanup L now days data = Inr data'
           \<and> seen_of data' = filter (\<lambda>kv. cutoff_time now days < entry_time L kv) entries
           \<and> (\<forall>kv \<in> set (seen_of data'). cutoff_time now days < entry_time L kv)
           \<and> (\<forall>kv \<in> set entries. cutoff_time now days < entry_time L kv \<longrightarrow> kv \<in> set (seen_of data'))
           \<and> (\<forall>kv \<in> set entries. entry_time L kv \<le> cutoff_time now days \<longrightarrow> kv \<notin> set (seen_of data'))
           \<and> (\<forall>k. k \<noteq> str ''seen'' \<longrightarrow> getitem data' k = getitem data k)
           \<and> ((\<forall>kv \<in> set entries. cutoff_time now days < entry_time L kv) \<longrightarrow> data' = data))
       \<and> cleanup L now days empty_state = Inr empty_state"
proof -
  let ?c = "cutoff_time now days"
  let ?kept = "filter (\<lambda>kv. ?c < entry_time L kv) entries"
  from assms(1) obtain kvs where d: "data = JDict kvs" by (auto dest: getitem_Inr)
  define data' where "data' = JDict (AList.update (str ''seen'') (JDict ?kept) kvs)"
  have run: "cleanup L now days data = Inr data'"
    using cleanup_readable [OF assms] by (simp add: data'_def d)
  have set': "setitem data (str ''seen'') (JDict ?kept) = Inr data'"
    unfolding data'_def d by simp
  have seen': "seen_of data' = ?kept"
    using getitem_setitem [OF set', of "str ''seen''"] by (simp add: seen_of_def)
  have other: "\<forall>k. k \<noteq> str ''seen'' \<longrightarrow> getitem data' k = getitem data k"
    using getitem_setitem [OF set'] by simp
  have same: "data' = data" if "\<forall>kv \<in> set entries. ?c < entry_time L kv"
  proof -
    from that have "?kept = entries" by simp
    with set' setitem_same [OF assms(1)] show ?thesis by simp
  qed
  have empty: "cleanup L now days empty_state = Inr empty_state"
  proof -
    have g: "getitem empty_state (str ''seen'') = Inr (JDict [])"
      by (simp add: empty_state_def)
    from cleanup_readable [OF g _ assms(3,4), of L] setitem_same [OF g]
    show ?thesis by simp
  qed
  from run seen' other same empty show ?thesis by auto
qed

section \<open>Marking and the stages of a run\<close>

lemma str_seen_neq [simp]:
  "str ''stats'' \<noteq> str ''seen''" "str ''last_run'' \<noteq> str ''seen''"
  "str ''seen'' \<noteq> str ''stats''" "str ''seen'' \<noteq> str ''last_run''"
  by (simp_all add: str_def)







lemma pipeline_Inr:
  assumes "pipeline L cfg clock data all_jobs = Inr r"
  shows "unique_jobs r = deduplicate all_jobs
       \<and> relevant_jobs r
           = filter (\<lambda>j. min_score cfg \<le> relevance_score j) (map (score L cfg) (deduplicate all_jobs))
       \<and> cleaned r = data
       \<and> new_jobs r = filter (\<lambda>j. is_new data j = Inr True) (relevant_jobs r)
       \<and> report_jobs r = slice_to (max_results cfg) (new_jobs r)
       \<and> rendered r = generate_order (report_jobs r)
       \<and> (\<exists>d2 d3. mark_all L clock 1 (new_jobs r) data = Inr d2
             \<and> update_stats (length (new_jobs r)) d2 = Inr d3
             \<and> save L (clock (Suc (length (new_jobs r)))) d3 = Inr (saved r))"
proof -
  let ?rel = "filter (\<lambda>j. min_score cfg \<le> relevance_score j) (map (score L cfg) (deduplicate all_jobs))"
  from assms obtain new d2 d3 d4 where
    f: "filter_items (is_new data) ?rel = Inr new"
    and m: "mark_all L clock 1 new data = Inr d2"
    and u: "update_stats (length new) d2 = Inr d3"
    and s: "save L (clock (Suc (length new))) d3 = Inr d4"
    and r: "r = \<lparr>unique_jobs = deduplicate all_jobs, relevant_jobs = ?rel, cleaned = data,
             new_jobs = new, saved = d4,
             report_jobs = slice_to (max_results cfg) new,
             rendered = generate_order (slice_to (max_results cfg) new)\<rparr>"
    unfolding pipeline_def Let_def and_then_Inr by auto
  from filter_items_result [OF f] have "new = filter (\<lambda>j. is_new data j = Inr True) ?rel" by simp
  with m u s r show ?thesis by auto
qed

lemma run_Reported:
  assumes "run L cfg clock args file adapters = Inr (Reported r)"
  shows "\<exists>loaded names data. load file = Inr loaded
           \<and> cleanup L (clock 0) 30 (fst loaded) = Inr data
           \<and> active_scrapers args = Some names
           \<and> pipeline L cfg clock data (concat (map adapters names)) = Inr r"
proof -
  from assms have nd: "\<not> args_dry_run args" by (auto simp: run_def split: if_splits)
  with assms obtain loaded where l: "load file = Inr loaded"
    and rest: "(if args_reset args then and_then (reset L (clock 0)) (\<lambda>d. Inr (ResetDone d))
          else and_then (cleanup L (clock 0) 30 (fst loaded)) (\<lambda>data.
              case active_scrapers args of None \<Rightarrow> Inr UnknownSource
              | Some names \<Rightarrow> and_then (pipeline L cfg clock data (concat (map adapters names)))
                    (\<lambda>r. Inr (Reported r)))) = Inr (Reported r)"
    by (auto simp: run_def and_then_Inr)
  from rest have nr: "\<not> args_reset args" by (auto simp: and_then_Inr split: if_splits)
  with rest obtain data where c: "cleanup L (clock 0) 30 (fst loaded) = Inr data"
    and rest2: "(case active_scrapers args of None \<Rightarrow> Inr UnknownSource
              | Some names \<Rightarrow> and_then (pipeline L cfg clock data (concat (map adapters names)))
                    (\<lambda>r. Inr (Reported r))) = Inr (Reported r)"
    by (auto simp: and_then_Inr)
  from rest2 obtain names where "active_scrapers args = Some names"
    "pipeline L cfg clock data (concat (map adapters names)) = Inr r"
    by (auto simp: and_then_Inr split: option.splits)
  with l c show ?thesis by blast
qed


lemma set_generate_order [simp]: "set (generate_order xs) = set xs"
  by (simp add: generate_order_def)

section \<open>The report of a run\<close>

text \<open>
  C1, as the code has it. In every run that reaches the report, \<open>run\<close> first cuts the
  new postings, in pipeline order, to \<open>new_jobs[:max_results]\<close> and hands that list to
  \<open>ReportGenerator.generate\<close>, which then sorts it by score, highest first and stable.
  The rendered list is in descending score order, is a rearrangement of the cut list,
  and for a non-negative \<open>max_results\<close> holds the first \<open>max_results\<close> new postings, so at
  most that many.
\<close>

theorem report_is_sorted_prefix:
  assumes "run L cfg clock args file adapters = Inr (Reported r)"
  shows "report_jobs r = slice_to (max_results cfg) (new_jobs r)
       \<and> rendered r = sort_key (\<lambda>j. - relevance_score j) (report_jobs r)
       \<and> sorted_wrt (\<lambda>a b. relevance_score b \<le> relevance_score a) (rendered r)
       \<and> mset (rendered r) = mset (report_jobs r)
       \<and> (\<forall>k. filter (\<lambda>j. relevance_score j = k) (rendered r)
               = filter (\<lambda>j. relevance_score j = k) (report_jobs r))
       \<and> (0 \<le> max_results cfg \<longrightarrow>
            report_jobs r = take (nat (max_results cfg)) (new_jobs r)
            \<and> length (rendered r) \<le> nat (max_results cfg))"
proof -
  from run_Reported [OF assms] obtain data all_jobs where
    "pipeline L cfg clock data all_jobs = Inr r" by blast
  from pipeline_Inr [OF this] have
    rep: "report_jobs r = slice_to (max_results cfg) (new_jobs r)"
    and ren: "rendered r = sort_key (\<lambda>j. - relevance_score j) (report_jobs r)"
    by (simp_all add: generate_order_def)
  have "sorted (map (\<lambda>j. - relevance_score j) (rendered r))"
    unfolding ren by (rule sorted_sort_key)
  then have desc: "sorted_wrt (\<lambda>a b. relevance_score b \<le> relevance_score a) (rendered r)"
    by (simp add: sorted_wrt_map)
  have ms: "mset (rendered r) = mset (report_jobs r)"
    unfolding ren by simp
  have stable: "filter (\<lambda>j. relevance_score j = k) (rendered r)
               = filter (\<lambda>j. relevance_score j = k) (report_jobs r)" for k
    unfolding ren using sort_key_stable [of "\<lambda>j. - relevance_score j" "- k" "report_jobs r"]
    by simp
  have len: "length (rendered r) = length (report_jobs r)"
    unfolding ren by simp
  from rep ren desc ms stable len show ?thesis
    by (auto simp: slice_to_def)
qed

section \<open>Later runs\<close>









section \<open>The store on sample data\<close>

lemma job_id_score [simp]: "job_id (score L cfg j) = job_id j"
  by (simp add: score_def split: prod.splits)

lemma sample_ids:
  "job_id manager_acme = str ''32b1ef61b79d52a2901ce6b31a64fb21''"
  "job_id manager_gamma = str ''5805c2133ec5f76c4c42f0ef8ccc2445''"
  "job_id analyst_beta = str ''de1e5e627badcb73f54cc84933036fa5''"
  by (simp_all add: manager_acme_def manager_gamma_def analyst_beta_def new_posting_def
        post_init_def identity_raw_def sample_lib_def)
     (simp_all add: sample_md5_def sample_digests_def str_def)

lemma scored_ids [simp]:
  "job_id scored_acme = job_id manager_acme"
  "job_id scored_beta = job_id analyst_beta"
  "job_id scored_gamma = job_id manager_gamma"
  by (simp_all add: scored_acme_def scored_beta_def scored_gamma_def)

lemma ids_differ:
  "job_id analyst_beta \<noteq> job_id manager_acme"
  "job_id manager_gamma \<noteq> job_id manager_acme"
  "job_id manager_gamma \<noteq> job_id analyst_beta"
  by (simp_all add: sample_ids str_def)

lemma first_seen_seen_record:
  "first_seen L (seen_record L t job) =
     and_then (py_fromisoformat L (py_isoformat L t))
       (\<lambda>d. case d of Naive t \<Rightarrow> Inr t | Aware t \<Rightarrow> Inl TypeError)"
  by (simp add: first_seen_def seen_record_def str_def)

lemma sample_round_trip:
  "t \<in> fst ` set sample_times \<Longrightarrow>
     py_fromisoformat sample_lib (py_isoformat sample_lib t) = Inr (Naive t)"
  by (auto simp: sample_lib_def sample_times_def sample_fromisoformat_def sample_isoformat_def
        str_def)

lemma sample_first_seen:
  "t \<in> fst ` set sample_times \<Longrightarrow> first_seen sample_lib (seen_record sample_lib t job) = Inr t"
  by (simp add: first_seen_seen_record sample_round_trip)

lemma sample_entry_time:
  "t \<in> fst ` set sample_times \<Longrightarrow> entry_time sample_lib (k, seen_record sample_lib t job) = t"
  "t \<in> fst ` set sample_times \<Longrightarrow> readable sample_lib (k, seen_record sample_lib t job)"
  by (simp_all add: entry_time_def readable_def sample_first_seen)

lemma in_sample_times:
  "63926780400000000 \<in> fst ` set sample_times"
  "63926780401000000 \<in> fst ` set sample_times"
  "63923860800000000 \<in> fst ` set sample_times"
  "63929286001000000 \<in> fst ` set sample_times"
  "63929286002000000 \<in> fst ` set sample_times"
  "63929372401000000 \<in> fst ` set sample_times"
  by (simp_all add: sample_times_def)

lemma store_with_seen [simp]:
  "getitem (store_with entries stamp n m) (str ''seen'') = Inr (JDict entries)"
  by (simp add: store_with_def)

lemma setitem_store_with_seen:
  "setitem (store_with entries stamp n m) (str ''seen'') (JDict kept)
     = Inr (store_with kept stamp n m)"
  by (simp add: store_with_def)

lemma day2_cutoff:
  "cutoff_time 63929372400000000 30 = 63926780400000000"
  "0 \<le> cutoff_time 63929372400000000 30"
  "cutoff_time 63929372400000000 30 \<le> datetime_max"
  by (simp_all add: cutoff_time_def datetime_max_def)

theorem cleanup_removes_expired_witness:
  "getitem (store_with [old_entry, fresh_entry] (str ''2026-10-05T07:00:01'') 2 2) (str ''seen'')
     = Inr (JDict [old_entry, fresh_entry])
   \<and> list_all (readable sample_lib) [old_entry, fresh_entry]
   \<and> 0 \<le> cutoff_time 63929372400000000 30
   \<and> cutoff_time 63929372400000000 30 \<le> datetime_max
   \<and> entry_time sample_lib old_entry \<le> cutoff_time 63929372400000000 30
   \<and> cutoff_time 63929372400000000 30 < entry_time sample_lib fresh_entry
   \<and> (\<exists>data'. cleanup sample_lib 63929372400000000 30
                 (store_with [old_entry, fresh_entry] (str ''2026-10-05T07:00:01'') 2 2) = Inr data'
         \<and> seen_of data' = [fresh_entry])
   \<and> cleanup sample_lib 63929372400000000 30 empty_state = Inr empty_state"
proof -
  have rd: "list_all (readable sample_lib) [old_entry, fresh_entry]"
    by (simp add: old_entry_def fresh_entry_def sample_entry_time in_sample_times)
  have times: "entry_time sample_lib old_entry = 63923860800000000"
      "entry_time sample_lib fresh_entry = 63926780401000000"
    by (simp_all add: old_entry_def fresh_entry_def sample_entry_time in_sample_times)
  note inst = cleanup_removes_expired
    [OF store_with_seen rd day2_cutoff(2) day2_cutoff(3),
     of "str ''2026-10-05T07:00:01''" 2 2]
  from inst obtain data' where
    "cleanup sample_lib 63929372400000000 30
        (store_with [old_entry, fresh_entry] (str ''2026-10-05T07:00:01'') 2 2) = Inr data'"
    "seen_of data' = filter (\<lambda>kv. cutoff_time 63929372400000000 30 < entry_time sample_lib kv)
        [old_entry, fresh_entry]"
    by blast
  moreover have "filter (\<lambda>kv. cutoff_time 63929372400000000 30 < entry_time sample_lib kv)
        [old_entry, fresh_entry] = [fresh_entry]"
    by (simp add: times day2_cutoff)
  moreover from inst have "cleanup sample_lib 63929372400000000 30 empty_state = Inr empty_state"
    by blast
  ultimately show ?thesis
    using rd times by (simp add: day2_cutoff datetime_max_def)
qed

text \<open>
  C5 as stated fails at the boundary: an entry first seen exactly 30 days before the call
  does not predate the cutoff, yet \<open>cleanup(30)\<close> removes it, because the comprehension
  keeps only \<open>first_seen > cutoff\<close>.
\<close>

theorem cleanup_boundary_counterexample:
  "entry_time sample_lib boundary_entry = cutoff_time 63929372400000000 30
   \<and> \<not> entry_time sample_lib boundary_entry < cutoff_time 63929372400000000 30
   \<and> cleanup sample_lib 63929372400000000 30
        (store_with [boundary_entry] (str ''2026-10-05T07:00:00'') 1 1)
       = Inr (store_with [] (str ''2026-10-05T07:00:00'') 1 1)"
proof -
  have t: "entry_time sample_lib boundary_entry = 63926780400000000"
    by (simp add: boundary_entry_def sample_entry_time in_sample_times)
  have rd: "list_all (readable sample_lib) [boundary_entry]"
    by (simp add: boundary_entry_def sample_entry_time in_sample_times)
  have "cleanup sample_lib 63929372400000000 30
        (store_with [boundary_entry] (str ''2026-10-05T07:00:00'') 1 1)
       = Inr (store_with [] (str ''2026-10-05T07:00:00'') 1 1)"
    unfolding cleanup_readable [OF store_with_seen rd day2_cutoff(2) day2_cutoff(3)]
    by (simp add: t day2_cutoff setitem_store_with_seen)
  with t show ?thesis by (simp add: day2_cutoff)
qed

text \<open>
  C4. A missing file and a file that is not JSON both load as the empty state, the
  second with the warning. A file that is not text raises \<open>UnicodeDecodeError\<close> out of
  \<open>_load\<close>. A file holding valid JSON of another shape, here \<open>{}\<close>, is returned as it is and
  without a warning; the store operations then raise \<open>KeyError\<close> and so does the run.
\<close>

theorem load_keeps_wrong_shape:
  "load NoFile = Inr (empty_state, False)
   \<and> load NotJson = Inr (empty_state, True)
   \<and> load NotText = Inl UnicodeDecodeError
   \<and> load (Json (JDict [])) = Inr (JDict [], False)
   \<and> cleanup sample_lib (day2_clock 0) 30 (JDict []) = Inl KeyError
   \<and> is_new (JDict []) manager_acme = Inl KeyError
   \<and> mark_seen sample_lib (day2_clock 1) manager_acme (JDict []) = Inl KeyError
   \<and> update_stats 0 (JDict []) = Inl KeyError
   \<and> run sample_lib sample_cfg day2_clock normal_args (Json (JDict [])) adapters = Inl KeyError"
proof -
  have c: "cleanup sample_lib (day2_clock 0) 30 (JDict []) = Inl KeyError"
    by (simp add: cleanup_def minus_days_def cutoff_time_def datetime_max_def day2_clock_def)
  have "run sample_lib sample_cfg day2_clock normal_args (Json (JDict [])) adapters = Inl KeyError"
    by (simp add: run_def normal_args_def load_def c)
  moreover have "update_stats 0 (JDict []) = Inl KeyError"
    by (simp add: update_stats_def contains_def)
  ultimately show ?thesis using c
    by (simp add: load_def is_new_def mark_seen_def)
qed

section \<open>Two sample runs\<close>

lemma scored_values:
  "scored_acme = manager_acme\<lparr>relevance_score := 70,
       match_reasons := [TitleMatch (str ''manager''), Location (str ''berlin''),
                         TargetCompany (str ''Acme'')]\<rparr>"
  "scored_beta = analyst_beta\<lparr>relevance_score := 20, match_reasons := [Location (str ''berlin'')]\<rparr>"
  by (simp_all add: scored_acme_def scored_beta_def score_manager_acme score_analyst_beta)

lemma score_manager_gamma:
  "score sample_lib sample_cfg manager_gamma =
     manager_gamma\<lparr>relevance_score := 55,
       match_reasons := [TitleMatch (str ''manager''), Location (str ''berlin'')]\<rparr>"
  by (simp add: scorer_eval manager_gamma_def)

lemma scored_scores [simp]:
  "relevance_score scored_acme = 70" "relevance_score scored_beta = 20"
  "relevance_score scored_gamma = 55"
  by (simp_all add: scored_values scored_gamma_def score_manager_gamma)

lemma sample_keys_run:
  "dedup_key analyst_beta = str ''https://b.example/1''"
  "dedup_key manager_acme = str ''https://a.example/1''"
  "dedup_key manager_gamma = str ''Manager|Gamma''"
  by (simp_all add: dedup_key_def analyst_beta_def manager_acme_def manager_gamma_def
        new_posting_def post_init_def str_def)

lemma day1_all_jobs:
  "concat (map day1_adapters scraper_names) = [analyst_beta, manager_acme]"
  by (simp add: day1_adapters_def scraper_names_def str_def)

lemma day1_unique: "deduplicate [analyst_beta, manager_acme] = [analyst_beta, manager_acme]"
  by (rule deduplicate_pair) (simp add: sample_keys_run str_def)

lemma sample_settings [simp]: "min_score sample_cfg = 10" "max_results sample_cfg = 1"
  by (simp_all add: min_score_def max_results_def sample_cfg_def)

lemma is_new_empty: "is_new empty_state j = Inr True"
  by (simp add: is_new_def empty_state_def contains_def)

lemma empty_state_store: "empty_state = JDict [(str ''seen'', JDict []), (str ''last_run'', JNull),
     (str ''stats'', JDict [(str ''total_seen'', JNum 0), (str ''total_reported'', JNum 0)])]"
  by (simp add: empty_state_def)

lemma mark_seen_dict:
  "mark_seen L t j (JDict ((str ''seen'', JDict kvs) # rest))
     = Inr (JDict ((str ''seen'', JDict (AList.update (job_id j) (seen_record L t j) kvs)) # rest))"
  by (simp add: mark_seen_def)

lemma sample_iso:
  "py_isoformat sample_lib (day1_clock 3) = str ''2026-11-03T07:00:03''"
  "py_isoformat sample_lib (day2_clock 2) = str ''2026-11-04T07:00:02''"
  by (simp_all add: sample_lib_def sample_isoformat_def sample_times_def day1_clock_def
        day2_clock_def)

lemma update_stats_store:
  "update_stats n (JDict [(str ''seen'', JDict kvs), (str ''last_run'', lr),
       (str ''stats'', JDict [(str ''total_seen'', JNum a), (str ''total_reported'', JNum b)])])
   = Inr (JDict [(str ''seen'', JDict kvs), (str ''last_run'', lr),
       (str ''stats'', JDict [(str ''total_seen'', JNum (of_nat (length kvs))),
                              (str ''total_reported'', JNum (b + of_nat n))])])"
  by (simp add: update_stats_def contains_def len_def add_count_def str_def)

lemma save_store:
  "save L t (JDict [(str ''seen'', JDict kvs), (str ''last_run'', lr), (str ''stats'', st)])
   = Inr (JDict [(str ''seen'', JDict kvs), (str ''last_run'', JStr (py_isoformat L t)),
                 (str ''stats'', st)])"
  by (simp add: save_def str_def)

lemma day1_pipeline:
  "pipeline sample_lib sample_cfg day1_clock empty_state [analyst_beta, manager_acme]
     = Inr day1_report"
proof -
  have rel: "filter (\<lambda>j. min_score sample_cfg \<le> relevance_score j)
        (map (score sample_lib sample_cfg) (deduplicate [analyst_beta, manager_acme]))
      = [scored_beta, scored_acme]"
    unfolding day1_unique by (simp add: scored_beta_def [symmetric] scored_acme_def [symmetric])
  have new: "filter_items (is_new empty_state) [scored_beta, scored_acme]
      = Inr [scored_beta, scored_acme]"
    by (simp add: is_new_empty)
  have mark: "mark_all sample_lib day1_clock 1 [scored_beta, scored_acme] empty_state
      = Inr (JDict [(str ''seen'', JDict
            [(job_id analyst_beta, seen_record sample_lib (day1_clock 1) scored_beta),
             (job_id manager_acme, seen_record sample_lib (day1_clock 2) scored_acme)]),
          (str ''last_run'', JNull),
          (str ''stats'', JDict [(str ''total_seen'', JNum 0), (str ''total_reported'', JNum 0)])])"
    using ids_differ by (simp add: empty_state_store mark_seen_dict numeral_2_eq_2)
  show ?thesis
    unfolding pipeline_def Let_def rel new and_then_simps mark
    by (simp add: update_stats_store save_store sample_iso numeral_3_eq_3 [symmetric]
          day1_report_def day1_saved_def store_with_def day1_unique slice_to_def
          generate_order_def)
qed

lemma day1_run:
  "run sample_lib sample_cfg day1_clock normal_args NoFile day1_adapters
     = Inr (Reported day1_report)"
proof -
  have g: "getitem empty_state (str ''seen'') = Inr (JDict [])"
    by (simp add: empty_state_def)
  have "cleanup sample_lib (day1_clock 0) 30 empty_state = Inr empty_state"
    using cleanup_readable [OF g, of sample_lib "day1_clock 0" 30] setitem_same [OF g]
    by (simp add: cutoff_time_def datetime_max_def day1_clock_def)
  then show ?thesis
    by (simp add: run_def normal_args_def load_def active_scrapers_def day1_all_jobs
          day1_pipeline)
qed










theorem report_is_sorted_prefix_witness:
  "run sample_lib sample_cfg day1_clock normal_args NoFile day1_adapters
     = Inr (Reported day1_report)
   \<and> 0 \<le> max_results sample_cfg
   \<and> report_jobs day1_report = take (nat (max_results sample_cfg)) (new_jobs day1_report)
   \<and> rendered day1_report = sort_key (\<lambda>j. - relevance_score j) (report_jobs day1_report)
   \<and> sorted_wrt (\<lambda>a b. relevance_score b \<le> relevance_score a) (rendered day1_report)
   \<and> length (rendered day1_report) \<le> nat (max_results sample_cfg)"
proof -
  have "0 \<le> max_results sample_cfg" by simp
  with report_is_sorted_prefix [OF day1_run] day1_run show ?thesis by blast
qed

text \<open>
  C1 as stated fails: with \<open>max_results = 1\<close> and two new postings scoring 20 and 70 in
  pipeline order, the report holds the posting scoring 20, the first in pipeline order,
  and not the highest-scoring one.
\<close>

theorem report_truncated_before_sorting_counterexample:
  "run sample_lib sample_cfg day1_clock normal_args NoFile day1_adapters
     = Inr (Reported day1_report)
   \<and> max_results sample_cfg = 1
   \<and> new_jobs day1_report = [scored_beta, scored_acme]
   \<and> relevance_score scored_beta = 20 \<and> relevance_score scored_acme = 70
   \<and> report_jobs day1_report = [scored_beta]
   \<and> rendered day1_report = [scored_beta]
   \<and> generate_order (new_jobs day1_report) = [scored_acme, scored_beta]
   \<and> rendered day1_report \<noteq> take 1 (generate_order (new_jobs day1_report))"
proof -
  have fields: "new_jobs day1_report = [scored_beta, scored_acme]"
      "report_jobs day1_report = [scored_beta]" "rendered day1_report = [scored_beta]"
    by (simp_all add: day1_report_def)
  have ne: "scored_beta \<noteq> scored_acme"
  proof
    assume "scored_beta = scored_acme"
    then have "relevance_score scored_beta = relevance_score scored_acme" by (rule arg_cong)
    then show False by simp
  qed
  have sorted: "generate_order [scored_beta, scored_acme] = [scored_acme, scored_beta]"
    by (simp add: generate_order_def)
  with ne have "rendered day1_report \<noteq> take 1 (generate_order (new_jobs day1_report))"
    unfolding fields by simp
  with day1_run fields sorted show ?thesis by simp
qed

subsection \<open>A third run\<close>





lemma rerun_all_jobs: "concat (map rerun_adapters [str ''indeed'']) = [manager_acme]"
  by (simp add: rerun_adapters_def)







end
